theory Spec2Isabelle
  imports Main
begin

section \<open>Geometry engine: dragging and resizing panes\<close>

text \<open>
  The embedding follows \<^verbatim>\<open>draggable.js\<close>, the resizable module and the combined
  \<^verbatim>\<open>interactive\<close> file. Pointer coordinates, offsets and pixel sizes are JavaScript
  numbers holding integers (\<^verbatim>\<open>clientX\<close>, \<^verbatim>\<open>offsetLeft\<close>, \<^verbatim>\<open>parseInt\<close>), so they are
  \<^typ>\<open>int\<close> here.

  \<^verbatim>\<open>document.body\<close> gives the viewport.
\<close>

record body =
  clientWidth :: int
  clientHeight :: int

text \<open>
  A pane is the positioned box the handlers work on. For a resizable pane this is the
  wrapper (\<^verbatim>\<open>parent\<close>, class \<^verbatim>\<open>parentResize\<close>) around the element; for a pane that
  is only draggable it is the element itself. The fields are what the handlers write
  and what the layout of the box is computed from:
  \<^item> \<open>styleLeft\<close>, \<open>styleTop\<close>: the pixel counts of the box's \<^verbatim>\<open>style.left\<close> and
    \<^verbatim>\<open>style.top\<close>, which the handlers write as \<^verbatim>\<open>n + 'px'\<close>.
  \<^item> \<open>marginLeft\<close>, \<open>marginTop\<close>: the box's left and top margin in pixels. No handler
    of the geometry engine writes a margin.
  \<^item> \<open>width\<close>, \<open>height\<close>: the pixel count of \<^verbatim>\<open>element.style.width\<close>/\<^verbatim>\<open>height\<close>, as
    \<^verbatim>\<open>parseInt(element.style.width.slice(0, -2))\<close> reads it.
  \<^item> \<open>gridColumns\<close>, \<open>gridRows\<close>: the middle track of the wrapper's
    \<^verbatim>\<open>gridTemplateColumns\<close>/\<^verbatim>\<open>gridTemplateRows\<close> (\<^verbatim>\<open>'3px ' + n + 'px 3px'\<close>).
  \<^item> \<open>resizable\<close>: whether the box is such a wrapper, with a 3px resize point on
    each side of the element.
\<close>

record pane =
  resizable :: bool
  styleLeft :: int
  styleTop :: int
  marginLeft :: int
  marginTop :: int
  width :: int
  height :: int
  gridColumns :: int
  gridRows :: int

text \<open>
  What the handlers read is the layout of the box, not its style. The box is positioned
  against the body, so \<^verbatim>\<open>offsetLeft\<close> (the distance of its border edge from the body's
  edge) is \<^verbatim>\<open>left\<close> plus the left margin, and \<^verbatim>\<open>offsetTop\<close> likewise. A wrapper is the
  grid \<^verbatim>\<open>3px n 3px\<close>; a pane that is only draggable is as wide as its element.
\<close>

definition offsetLeft :: "pane \<Rightarrow> int" where
  "offsetLeft p = styleLeft p + marginLeft p"

definition offsetTop :: "pane \<Rightarrow> int" where
  "offsetTop p = styleTop p + marginTop p"

definition offsetWidth :: "pane \<Rightarrow> int" where
  "offsetWidth p = (if resizable p then gridColumns p + 6 else width p)"

definition offsetHeight :: "pane \<Rightarrow> int" where
  "offsetHeight p = (if resizable p then gridRows p + 6 else height p)"

text \<open>\<^verbatim>\<open>{x, y}\<close>: a mouse drag (previous cursor minus current cursor) or a position.\<close>

record xy =
  x_of :: int
  y_of :: int

text \<open>The object built by \<^verbatim>\<open>getElementOffsetAndMeasures\<close>.\<close>

record measures =
  e_left :: int
  e_top :: int
  e_height :: int
  e_width :: int

record boundaries =
  b_left :: int
  b_top :: int
  b_right :: int
  b_bottom :: int

record limits =
  lim_left :: int
  lim_right :: int
  lim_top :: int
  lim_bottom :: int

definition getElementOffsetAndMeasures :: "pane \<Rightarrow> measures" where
  "getElementOffsetAndMeasures element =
     \<lparr>e_left = offsetLeft element, e_top = offsetTop element,
      e_height = offsetHeight element, e_width = offsetWidth element\<rparr>"

definition getDocumentBodyLimits :: "body \<Rightarrow> limits" where
  "getDocumentBodyLimits doc =
     \<lparr>lim_left = 0, lim_right = clientWidth doc, lim_top = 0, lim_bottom = clientHeight doc\<rparr>"

text \<open>The four tests run in the source's order, each on the position left by the last.\<close>

definition preventDragOutsideScreen :: "body \<Rightarrow> measures \<Rightarrow> xy \<Rightarrow> boundaries \<Rightarrow> xy" where
  "preventDragOutsideScreen doc element newPosition bnd =
     (let limit = getDocumentBodyLimits doc;
          p1 = (if b_left bnd < lim_left limit then newPosition\<lparr>x_of := e_left element\<rparr>
                else newPosition);
          p2 = (if b_top bnd < lim_top limit then p1\<lparr>y_of := e_top element\<rparr> else p1);
          p3 = (if b_right bnd > lim_right limit then p2\<lparr>x_of := e_left element\<rparr> else p2);
          p4 = (if b_bottom bnd > lim_bottom limit then p3\<lparr>y_of := e_top element\<rparr> else p3)
      in p4)"

definition getDragNewPosition :: "body \<Rightarrow> pane \<Rightarrow> xy \<Rightarrow> xy" where
  "getDragNewPosition doc ele mouseDrag =
     (let element = getElementOffsetAndMeasures ele;
          newPosition = \<lparr>x_of = e_left element - x_of mouseDrag,
                         y_of = e_top element - y_of mouseDrag\<rparr>;
          bnd = \<lparr>b_left = x_of newPosition, b_top = y_of newPosition,
                 b_right = x_of newPosition + e_width element,
                 b_bottom = y_of newPosition + e_height element\<rparr>
      in preventDragOutsideScreen doc element newPosition bnd)"

text \<open>
  The body of the \<^verbatim>\<open>onmousemove\<close> handler of \<^verbatim>\<open>drag\<close> (and the \<^verbatim>\<open>'drag'\<close> branch of
  \<^verbatim>\<open>dragAction\<close>): two writes, \<^verbatim>\<open>style.left\<close> and \<^verbatim>\<open>style.top\<close>.
\<close>

definition drag :: "body \<Rightarrow> xy \<Rightarrow> pane \<Rightarrow> pane" where
  "drag doc mouseDrag element =
     (let newPosition = getDragNewPosition doc element mouseDrag
      in element\<lparr>styleLeft := x_of newPosition, styleTop := y_of newPosition\<rparr>)"

subsection \<open>Resize zones\<close>

text \<open>Zone codes: 0 left, 1 right, 2 top, 3 bottom; \<open>None\<close> is \<^verbatim>\<open>undefined\<close>.\<close>

definition getHorizontalResizePointZone :: "string \<Rightarrow> nat option" where
  "getHorizontalResizePointZone resizePoint =
     (if resizePoint = ''left'' \<or> resizePoint = ''upperLeft'' \<or> resizePoint = ''lowerLeft''
      then Some 0
      else if resizePoint = ''right'' \<or> resizePoint = ''upperRight'' \<or> resizePoint = ''lowerRight''
      then Some 1
      else None)"

definition getVerticalResizePointZone :: "string \<Rightarrow> nat option" where
  "getVerticalResizePointZone resizePoint =
     (if resizePoint = ''top'' \<or> resizePoint = ''upperLeft'' \<or> resizePoint = ''upperRight''
      then Some 2
      else if resizePoint = ''bottom'' \<or> resizePoint = ''lowerLeft'' \<or> resizePoint = ''lowerRight''
      then Some 3
      else None)"

definition getResizePointZone :: "string \<Rightarrow> nat option \<times> nat option" where
  "getResizePointZone resizePoint =
     (getHorizontalResizePointZone resizePoint, getVerticalResizePointZone resizePoint)"

text \<open>The class names \<^verbatim>\<open>addResizePoints\<close> gives the eight resize points.\<close>

definition resizePoints :: "string list" where
  "resizePoints = [''left'', ''upperLeft'', ''top'', ''upperRight'', ''right'', ''lowerRight'',
     ''bottom'', ''lowerLeft'']"

text \<open>
  \<^verbatim>\<open>changeHorizontalMeasures(element, parent, mouseDrag, zone)\<close>. Each \<^verbatim>\<open>return\<close> of
  the source leaves the pane as it is. The width is written twice, to
  \<^verbatim>\<open>element.style.width\<close> and to the wrapper's grid.
\<close>

definition changeHorizontalMeasures :: "body \<Rightarrow> pane \<Rightarrow> int \<Rightarrow> nat option \<Rightarrow> pane" where
  "changeHorizontalMeasures doc p mouseDrag0 zone =
     (case zone of
        None \<Rightarrow> p
      | Some z \<Rightarrow>
          (let mouseDrag = (if z = 1 then - mouseDrag0 else mouseDrag0);
               w = width p + mouseDrag;
               offLeft = offsetLeft p
           in if z = 1 \<and> offLeft + w + 6 > clientWidth doc then p
              else if w \<ge> 5 then
                (if z = 0 then
                   (let newOffset = offLeft - mouseDrag
                    in if newOffset < 0 then p
                       else p\<lparr>styleLeft := newOffset, width := w, gridColumns := w\<rparr>)
                 else p\<lparr>width := w, gridColumns := w\<rparr>)
              else p))"

definition changeVerticalMeasures :: "body \<Rightarrow> pane \<Rightarrow> int \<Rightarrow> nat option \<Rightarrow> pane" where
  "changeVerticalMeasures doc p mouseDrag0 zone =
     (case zone of
        None \<Rightarrow> p
      | Some z \<Rightarrow>
          (let mouseDrag = (if z = 3 then - mouseDrag0 else mouseDrag0);
               h = height p + mouseDrag;
               offTop = offsetTop p
           in if z = 3 \<and> offTop + h + 6 > clientHeight doc then p
              else if h \<ge> 5 then
                (if z = 2 then
                   (let newOffset = offTop - mouseDrag
                    in if newOffset < 0 then p
                       else p\<lparr>styleTop := newOffset, height := h, gridRows := h\<rparr>)
                 else p\<lparr>height := h, gridRows := h\<rparr>)
              else p))"

definition changeElementSizeAndPosition :: "body \<Rightarrow> pane \<Rightarrow> string \<Rightarrow> xy \<Rightarrow> pane" where
  "changeElementSizeAndPosition doc p resizePoint mouseDrag =
     (let zone = getResizePointZone resizePoint;
          p1 = changeHorizontalMeasures doc p (x_of mouseDrag) (fst zone)
      in changeVerticalMeasures doc p1 (y_of mouseDrag) (snd zone))"



text \<open>
  \<^verbatim>\<open>dragAction(action, mouseDrag)\<close>: \<^verbatim>\<open>action.action\<close> is \<^verbatim>\<open>'resize'\<close> (with the resize
  point's class name among its parameters) or \<^verbatim>\<open>'drag'\<close>; the pane is the element the
  action carries.
\<close>

datatype action = Resize string | Drag

fun dragAction :: "body \<Rightarrow> action \<Rightarrow> xy \<Rightarrow> pane \<Rightarrow> pane" where
  "dragAction doc (Resize resizePoint) mouseDrag p =
     changeElementSizeAndPosition doc p resizePoint mouseDrag"
| "dragAction doc Drag mouseDrag p = drag doc mouseDrag p"

text \<open>
  A sequence of pointer-delta steps, each a move or a resize: the pane after each step,
  in order. A step reads the layout (\<open>offsetLeft\<close>, \<open>offsetTop\<close>, \<open>offsetWidth\<close>,
  \<open>offsetHeight\<close>) of the pane the step before it left, and writes the style.
\<close>

fun committed :: "body \<Rightarrow> pane \<Rightarrow> (action \<times> xy) list \<Rightarrow> pane list" where
  "committed doc p [] = []"
| "committed doc p (s # ss) =
     (let p' = dragAction doc (fst s) (snd s) p in p' # committed doc p' ss)"

text \<open>
  \<^verbatim>\<open>trackMouseDragPlusAction\<close>: the cursor is at \<open>c1\<close> on mouse down; every mouse move
  to \<open>c2\<close> runs the action on the difference and makes \<open>c2\<close> the new start.
\<close>

fun trackMouseDragPlusAction :: "body \<Rightarrow> action \<Rightarrow> xy \<Rightarrow> xy list \<Rightarrow> pane \<Rightarrow> pane" where
  "trackMouseDragPlusAction doc act c1 [] p = p"
| "trackMouseDragPlusAction doc act c1 (c2 # cs) p =
     (let mouseDrag = \<lparr>x_of = x_of c1 - x_of c2, y_of = y_of c1 - y_of c2\<rparr>
      in trackMouseDragPlusAction doc act c2 cs (dragAction doc act mouseDrag p))"

text \<open>
  The containment bounds of a pane's rectangle \<open>(x, y, width, height)\<close>, at the place
  where the layout puts the pane, and the same bounds for the whole box of the pane (a
  wrapper with its resize points).
\<close>

definition inViewport :: "body \<Rightarrow> pane \<Rightarrow> bool" where
  "inViewport doc p \<longleftrightarrow>
     0 \<le> offsetLeft p \<and> 0 \<le> offsetTop p \<and>
     offsetLeft p + width p \<le> clientWidth doc \<and>
     offsetTop p + height p \<le> clientHeight doc"

definition boxInViewport :: "body \<Rightarrow> pane \<Rightarrow> bool" where
  "boxInViewport doc p \<longleftrightarrow>
     0 \<le> offsetLeft p \<and> 0 \<le> offsetTop p \<and>
     offsetLeft p + offsetWidth p \<le> clientWidth doc \<and>
     offsetTop p + offsetHeight p \<le> clientHeight doc"

text \<open>
  Two conditions on a pane. It has no margin: then \<^verbatim>\<open>offsetLeft\<close> and \<^verbatim>\<open>offsetTop\<close> read
  back what was written to \<^verbatim>\<open>style.left\<close> and \<^verbatim>\<open>style.top\<close>. Its grid track and its
  element have the same size: this is so when a pane is made resizable
  (\<^verbatim>\<open>initialResizeCssProperties\<close> writes both from the same computed size) and after
  every resize step that writes, but not after the maximize control has set the
  element's size to \<^verbatim>\<open>100%\<close>.
\<close>

definition noMargin :: "pane \<Rightarrow> bool" where
  "noMargin p \<longleftrightarrow> marginLeft p = 0 \<and> marginTop p = 0"

definition synced :: "pane \<Rightarrow> bool" where
  "synced p \<longleftrightarrow> gridColumns p = width p \<and> gridRows p = height p"

subsection \<open>The window-resize containment pass\<close>

text \<open>
  One round of the loop of \<^verbatim>\<open>resizeOnWindowChange\<close>, for one wrapper: first the width
  adjustments, then the height adjustments.
\<close>

definition adjustWidth :: "body \<Rightarrow> pane \<Rightarrow> pane" where
  "adjustWidth doc p =
     (let windowW = clientWidth doc;
          leftOffset = offsetLeft p;
          parentWidth = width p + 6
      in if leftOffset + parentWidth > windowW then
           (let w = windowW - leftOffset - 6
            in if w \<ge> 5 then p\<lparr>gridColumns := w, width := w\<rparr>
               else (let newOffset = windowW - 5 - 6 in p\<lparr>styleLeft := newOffset\<rparr>))
         else p)"

definition adjustHeight :: "body \<Rightarrow> pane \<Rightarrow> pane" where
  "adjustHeight doc p =
     (let windowH = clientHeight doc;
          offTop = offsetTop p;
          parentHeight = height p + 6
      in if offTop + parentHeight > windowH then
           (let h = windowH - offTop - 6
            in if h \<ge> 5 then p\<lparr>gridRows := h, height := h\<rparr>
               else (let newOffset = windowH - 5 - 6
                     in if newOffset \<ge> 0 then p\<lparr>styleTop := newOffset\<rparr> else p))
         else p)"

text \<open>
  The loop over \<^verbatim>\<open>document.getElementsByClassName('parentResize')\<close>, from index \<open>i\<close> up
  to the length: the wrappers are the list, each round rewrites entry \<open>i\<close>.
\<close>

function resizeLoop :: "body \<Rightarrow> nat \<Rightarrow> pane list \<Rightarrow> pane list" where
  "resizeLoop doc i parents =
     (if i < length parents
      then resizeLoop doc (Suc i) (parents[i := adjustHeight doc (adjustWidth doc (parents ! i))])
      else parents)"
  by pat_completeness auto
termination
  by (relation "measure (\<lambda>(doc, i, parents). length parents - i)") auto

declare resizeLoop.simps [simp del]

definition resizeOnWindowChange :: "body \<Rightarrow> pane list \<Rightarrow> pane list" where
  "resizeOnWindowChange doc parents = resizeLoop doc 0 parents"

section \<open>The maximize control\<close>

text \<open>
  \<^verbatim>\<open>addFullScreenMaximizeFunction\<close> works on CSS values, which are strings here as in
  the source. \<^verbatim>\<open>'' + n\<close> on an integer is its decimal numeral.
\<close>

fun digits :: "nat \<Rightarrow> string" where
  "digits n =
     (if n < 10 then [''0123456789'' ! n] else digits (n div 10) @ [''0123456789'' ! (n mod 10)])"

declare digits.simps [simp del]

definition toString :: "int \<Rightarrow> string" where
  "toString i = (if i < 0 then ''-'' @ digits (nat (- i)) else digits (nat i))"

text \<open>
  The style of one box, as far as the control reads or writes it. A field holds the
  value \<^verbatim>\<open>getComputedStyle\<close> reports for the box; a write to \<^verbatim>\<open>box.style\<close> replaces it.
\<close>

record css =
  s_top :: string
  s_left :: string
  s_margin :: string
  s_width :: string
  s_height :: string
  s_gridTemplateRows :: string
  s_gridTemplateColumns :: string

text \<open>
  The object \<^verbatim>\<open>getElementSizeAndPosition\<close> returns. It has the six keys below and no
  \<^verbatim>\<open>margin\<close> key, so \<^verbatim>\<open>actualSize.margin\<close> reads \<^verbatim>\<open>undefined\<close> (\<open>None\<close>).
\<close>

record actualSize =
  a_width :: string
  a_height :: string
  a_top :: string
  a_left :: string
  a_gridCol :: string
  a_gridRow :: string

definition a_margin :: "actualSize \<Rightarrow> string option" where
  "a_margin a = None"

definition getElementSizeAndPosition :: "css \<Rightarrow> actualSize" where
  "getElementSizeAndPosition style =
     \<lparr>a_width = s_width style, a_height = s_height style, a_top = s_top style,
      a_left = s_left style, a_gridCol = s_gridTemplateColumns style,
      a_gridRow = s_gridTemplateRows style\<rparr>"

text \<open>
  Writing a style property. A write of \<^verbatim>\<open>undefined\<close> is a write of the text
  \<^verbatim>\<open>undefined\<close>, which is not a value of the property; the style object ignores a
  value it cannot parse, so the property keeps the value it had.
\<close>

definition assign :: "string option \<Rightarrow> string \<Rightarrow> string" where
  "assign v old = (case v of None \<Rightarrow> old | Some new \<Rightarrow> new)"

text \<open>
  The window sizes the click handler reads: \<^verbatim>\<open>a || b || c\<close> is the first operand that
  is not zero, or the last.
\<close>

record window =
  innerWidth :: int
  innerHeight :: int
  documentElementClientWidth :: int
  documentElementClientHeight :: int
  bodyClientWidth :: int
  bodyClientHeight :: int

definition firstTruthy :: "int \<Rightarrow> int \<Rightarrow> int \<Rightarrow> int" where
  "firstTruthy a b c = (if a \<noteq> 0 then a else if b \<noteq> 0 then b else c)"

text \<open>
  What the handler touches: the element (its id, whether its class list has
  \<^verbatim>\<open>resizable\<close>, its style), the style of its parent (the wrapper of a resizable
  element), and the global \<^verbatim>\<open>maxStorage\<close>, an object keyed by element id. The map
  holds the properties the object has of its own: the ids of panes are taken not to be
  names that every object inherits (\<^verbatim>\<open>constructor\<close> and the like), for which
  \<^verbatim>\<open>maxStorage[id]\<close> is never \<^verbatim>\<open>undefined\<close>. The window is taken to be at least 6px
  wide and high, so that the grid tracks the handler writes are sizes.
\<close>

record maxState =
  element_id :: string
  isResizable :: bool
  element_style :: css
  parent_style :: css
  maxStorage :: "string \<rightharpoonup> actualSize"

definition maxBtn_onclick :: "window \<Rightarrow> maxState \<Rightarrow> maxState" where
  "maxBtn_onclick win st =
     (let index = element_id st in
      case maxStorage st index of
        None \<Rightarrow>
          (let w = firstTruthy (innerWidth win) (documentElementClientWidth win) (bodyClientWidth win);
               h = firstTruthy (innerHeight win) (documentElementClientHeight win) (bodyClientHeight win);
               newKey = element_id st
           in if isResizable st then
                st\<lparr>maxStorage := (maxStorage st)(newKey \<mapsto> getElementSizeAndPosition (parent_style st)),
                   element_style := (element_style st)\<lparr>s_width := ''100%'', s_height := ''100%''\<rparr>,
                   parent_style := (parent_style st)
                     \<lparr>s_top := ''0px'', s_left := ''0px'', s_margin := ''0px'',
                      s_gridTemplateRows := ''3px '' @ toString (h - 6) @ ''px 3px'',
                      s_gridTemplateColumns := ''3px '' @ toString (w - 6) @ ''px 3px''\<rparr>\<rparr>
              else
                st\<lparr>maxStorage := (maxStorage st)(newKey \<mapsto> getElementSizeAndPosition (element_style st)),
                   element_style := (element_style st)
                     \<lparr>s_top := ''0px'', s_left := ''0px'', s_margin := ''0px'',
                      s_width := toString w @ ''px'', s_height := toString h @ ''px''\<rparr>\<rparr>)
      | Some saved \<Rightarrow>
          (if isResizable st then
             st\<lparr>parent_style := (parent_style st)
                  \<lparr>s_top := a_top saved, s_left := a_left saved,
                   s_margin := assign (a_margin saved) (s_margin (parent_style st)),
                   s_gridTemplateRows := a_gridRow saved,
                   s_gridTemplateColumns := a_gridCol saved\<rparr>,
                maxStorage := (maxStorage st)(index := None)\<rparr>
           else
             st\<lparr>element_style := (element_style st)
                  \<lparr>s_top := a_top saved, s_left := a_left saved, s_width := a_width saved,
                   s_margin := assign (a_margin saved) (s_margin (element_style st)),
                   s_height := a_height saved\<rparr>,
                maxStorage := (maxStorage st)(index := None)\<rparr>))"

section \<open>Minimized panes: the registry and its strip or dropdown\<close>

text \<open>
  \<^verbatim>\<open>minStorage\<close> is an array whose slots hold a template \<^verbatim>\<open>{id, title}\<close>, or the empty
  string once the pane of the slot was restored.
\<close>

datatype slot = Empty | Entry string string

fun slot_id :: "slot \<Rightarrow> string option" where
  "slot_id Empty = None"
| "slot_id (Entry i t) = Some i"

text \<open>
  The text a representation shows: \<^verbatim>\<open>slot.title\<close>; on the empty string the read gives
  \<^verbatim>\<open>undefined\<close>, and \<^verbatim>\<open>textContent\<close> then is empty.
\<close>

fun title_of :: "slot \<Rightarrow> string" where
  "title_of Empty = []"
| "title_of (Entry i t) = t"

text \<open>
  The capacity \<^verbatim>\<open>numItems\<close> is a JavaScript number or \<^verbatim>\<open>undefined\<close>. \<open>Undefined\<close>
  stands for \<^verbatim>\<open>undefined\<close> and for \<^verbatim>\<open>NaN\<close>: every comparison with either is false.
\<close>

datatype num = Undefined | Num nat | Infinity

fun js_gt :: "nat \<Rightarrow> num \<Rightarrow> bool" where
  "js_gt n (Num k) = (n > k)"
| "js_gt n Undefined = False"
| "js_gt n Infinity = False"

fun js_lt :: "nat \<Rightarrow> num \<Rightarrow> bool" where
  "js_lt n (Num k) = (n < k)"
| "js_lt n Undefined = False"
| "js_lt n Infinity = True"

fun js_le :: "nat \<Rightarrow> num \<Rightarrow> bool" where
  "js_le n (Num k) = (n \<le> k)"
| "js_le n Undefined = False"
| "js_le n Infinity = True"

text \<open>\<^verbatim>\<open>numItems + 1\<close>.\<close>

fun js_succ :: "num \<Rightarrow> num" where
  "js_succ (Num k) = Num (k + 1)"
| "js_succ Undefined = Undefined"
| "js_succ Infinity = Infinity"

text \<open>\<^verbatim>\<open>Math.floor(a / w)\<close> for a width \<open>a\<close> and an item width \<open>w\<close> (\<open>None\<close>: \<^verbatim>\<open>undefined\<close>).\<close>

fun floor_div :: "nat \<Rightarrow> nat option \<Rightarrow> num" where
  "floor_div a None = Undefined"
| "floor_div a (Some w) =
     (if w = 0 then (if a = 0 then Undefined else Infinity) else Num (a div w))"

text \<open>
  What the browser's layout reports when a handler measures: the \<^verbatim>\<open>clientWidth\<close> of
  \<^verbatim>\<open>#minimizeZone\<close>, and width plus left and right margin of the zone's first element
  child.
\<close>

record layout =
  areaClientWidth :: nat
  itemOuterWidth :: nat

text \<open>
  The children of \<^verbatim>\<open>#minimizeZone\<close>, in document order. A \<open>Span\<close> is a minimized
  representation (\<^verbatim>\<open>span.minimizedItem\<close>) with its id and title; ids are decimal
  numerals (\<^verbatim>\<open>'' + count\<close>, read back by \<^verbatim>\<open>parseInt\<close>), kept as numbers. \<open>Btn\<close> and
  \<open>Lst\<close> are the dropdown's button and list; the list holds its items, each an id and a
  title. Button and list are created with the ids \<^verbatim>\<open>dropdownBtn\<close> and \<^verbatim>\<open>dropdownList\<close>
  (\<open>Default\<close>); the renumbering loop of \<^verbatim>\<open>maximize\<close> can overwrite them with a number.
\<close>

datatype eid = Default | Renumbered nat

datatype child = Span nat string | Btn eid | Lst eid "(nat \<times> string) list"

datatype error = TypeError | NotFoundError | NoSuchTarget

text \<open>
  The globals of the module with the children of the zone (\<^verbatim>\<open>addMinimizeArea\<close> has
  created it). \<open>dropdown\<close> is \<^verbatim>\<open>true\<close> or
  \<^verbatim>\<open>undefined\<close> (\<open>False\<close>). \<open>hidden\<close> holds the ids of the panes whose box has
  \<^verbatim>\<open>display: none\<close>.
\<close>

record minState =
  minStorage :: "slot list"
  count :: nat
  dropdown :: bool
  numItems :: num
  elementWidth :: "nat option"
  zone :: "child list"
  hidden :: "string set"

definition initialState :: minState where
  "initialState =
     \<lparr>minStorage = [], count = 0, dropdown = False, numItems = Undefined,
      elementWidth = None, zone = [], hidden = {}\<rparr>"

definition storeMinimizedElement :: "string \<times> string \<Rightarrow> minState \<Rightarrow> minState" where
  "storeMinimizedElement template st =
     st\<lparr>minStorage := minStorage st @ [Entry (fst template) (snd template)]\<rparr>"

text \<open>
  \<^verbatim>\<open>deleteDuplicatedItemsMinStorage\<close>; it runs right after a push, so the array is not
  empty and \<^verbatim>\<open>length - 1\<close> is a natural number.
\<close>

definition deleteDuplicatedItemsMinStorage :: "minState \<Rightarrow> bool \<times> minState" where
  "deleteDuplicatedItemsMinStorage st =
     (let c = length (minStorage st) - 1;
          st1 = st\<lparr>count := c\<rparr>
      in if c > 0 \<and> slot_id (minStorage st ! (c - 1)) = slot_id (minStorage st ! c)
         then (True, st1\<lparr>minStorage := butlast (minStorage st)\<rparr>)
         else (False, st1))"

definition firstElementChild :: "child list \<Rightarrow> child option" where
  "firstElementChild cs = (case cs of [] \<Rightarrow> None | c # _ \<Rightarrow> Some c)"

text \<open>
  \<^verbatim>\<open>getItemCountToFitElementByWidth(item, element)\<close>: with an item it stores the item's
  measured width in the global \<^verbatim>\<open>elementWidth\<close>; without one it returns \<^verbatim>\<open>undefined\<close>.
\<close>

definition getItemCountToFitElementByWidth ::
  "layout \<Rightarrow> child option \<Rightarrow> minState \<Rightarrow> num \<times> minState" where
  "getItemCountToFitElementByWidth lay item st =
     (case item of
        None \<Rightarrow> (Undefined, st)
      | Some c \<Rightarrow>
          (floor_div (areaClientWidth lay) (Some (itemOuterWidth lay)),
           st\<lparr>elementWidth := Some (itemOuterWidth lay)\<rparr>))"

text \<open>
  \<^verbatim>\<open>document.getElementById('' + i)\<close> over the zone, in document order (a list before
  its items): where the first element with the numeral \<open>i\<close> as id is. Outside the
  zone the document has no element with a numeral as id.
\<close>

datatype place = TopLevel nat | Inside nat nat

fun has_id :: "nat \<Rightarrow> child \<Rightarrow> bool" where
  "has_id i (Span j t) = (i = j)"
| "has_id i (Btn e) = (e = Renumbered i)"
| "has_id i (Lst e items) = (e = Renumbered i)"

fun find_item :: "nat \<Rightarrow> nat \<Rightarrow> (nat \<times> string) list \<Rightarrow> nat option" where
  "find_item i k [] = None"
| "find_item i k (x # xs) = (if fst x = i then Some k else find_item i (Suc k) xs)"

fun getElementById :: "nat \<Rightarrow> nat \<Rightarrow> child list \<Rightarrow> place option" where
  "getElementById i k [] = None"
| "getElementById i k (c # cs) =
     (if has_id i c then Some (TopLevel k)
      else case c of
             Lst e items \<Rightarrow>
               (case find_item i 0 items of
                  Some j \<Rightarrow> Some (Inside k j)
                | None \<Rightarrow> getElementById i (Suc k) cs)
           | _ \<Rightarrow> getElementById i (Suc k) cs)"

text \<open>
  \<^verbatim>\<open>document.getElementById('dropdownList')\<close>: the index of the list in the zone, with
  the list's items.
\<close>

fun getDropdownList :: "nat \<Rightarrow> child list \<Rightarrow> (nat \<times> (nat \<times> string) list) option" where
  "getDropdownList k [] = None"
| "getDropdownList k (Lst Default items # cs) = Some (k, items)"
| "getDropdownList k (c # cs) = getDropdownList (Suc k) cs"

definition removeAt :: "nat \<Rightarrow> 'a list \<Rightarrow> 'a list" where
  "removeAt k xs = take k xs @ drop (Suc k) xs"

lemma getElementById_TopLevel:
  "getElementById i k0 cs = Some (TopLevel k) \<Longrightarrow> k0 \<le> k \<and> k < k0 + length cs"
proof (induction cs arbitrary: k0)
  case Nil
  then show ?case by simp
next
  case (Cons c cs)
  show ?case
  proof (cases "has_id i c")
    case True
    with Cons.prems show ?thesis by simp
  next
    case False
    with Cons.prems have "getElementById i (Suc k0) cs = Some (TopLevel k)"
      by (auto split: child.splits option.splits)
    from Cons.IH [OF this] show ?thesis by simp
  qed
qed

text \<open>
  \<^verbatim>\<open>deleteMinimizedItems(count, parent)\<close> with the zone as parent, from \<open>i\<close> on:
  \<^verbatim>\<open>removeChild(null)\<close> is a \<^verbatim>\<open>TypeError\<close>, and \<^verbatim>\<open>removeChild\<close> of an element that is
  not a child of the zone a \<^verbatim>\<open>NotFoundError\<close>. Every round removes a child of the
  zone, so the loop ends whatever the count is.
\<close>

function deleteMinimizedItems :: "nat \<Rightarrow> num \<Rightarrow> child list \<Rightarrow> error + child list" where
  "deleteMinimizedItems i cnt cs =
     (if js_lt i cnt then
        (case getElementById i 0 cs of
           None \<Rightarrow> Inl TypeError
         | Some (Inside k j) \<Rightarrow> Inl NotFoundError
         | Some (TopLevel k) \<Rightarrow> deleteMinimizedItems (Suc i) cnt (removeAt k cs))
      else Inr cs)"
  by pat_completeness auto
termination
proof (relation "measure (\<lambda>(i, cnt, cs). length cs)")
  show "wf (measure (\<lambda>(i, cnt, cs). length cs))"
    by simp
next
  fix i :: nat and cnt :: num and cs :: "child list" and x2 :: place and k :: nat
  assume "getElementById i 0 cs = Some x2" and "x2 = TopLevel k"
  then have "k < length cs"
    using getElementById_TopLevel [of i 0 cs k] by simp
  then show "((Suc i, cnt, removeAt k cs), (i, cnt, cs)) \<in> measure (\<lambda>(i, cnt, cs). length cs)"
    by (simp add: removeAt_def)
qed

declare deleteMinimizedItems.simps [simp del]

text \<open>\<^verbatim>\<open>addDropdownItems(minStorage, dropdown)\<close>: the items of the new list.\<close>

definition addDropdownItems :: "slot list \<Rightarrow> (nat \<times> string) list" where
  "addDropdownItems items = map (\<lambda>j. (j, title_of (items ! j))) [0..<length items]"

text \<open>
  \<^verbatim>\<open>horizontalRepToDropdownList(count, ofArea)\<close>: delete \<open>cnt\<close> representations, append
  the button and the list, fill the list from \<^verbatim>\<open>minStorage\<close>.
\<close>

definition horizontalRepToDropdownList :: "num \<Rightarrow> minState \<Rightarrow> error + minState" where
  "horizontalRepToDropdownList cnt st =
     (case deleteMinimizedItems 0 cnt (zone st) of
        Inl e \<Rightarrow> Inl e
      | Inr cs \<Rightarrow>
          Inr (st\<lparr>zone := cs @ [Btn Default, Lst Default (addDropdownItems (minStorage st))]\<rparr>))"

text \<open>
  The compaction loop of \<^verbatim>\<open>fromDropdownToHorizontalMinimized\<close>: slot \<open>i\<close> is copied down
  to slot \<open>c\<close> when it is not the empty string; at the end the array is cut to \<open>c\<close>.
\<close>

function compact :: "nat \<Rightarrow> nat \<Rightarrow> slot list \<Rightarrow> slot list" where
  "compact i c ms =
     (if i < length ms then
        (if ms ! i \<noteq> Empty then compact (Suc i) (Suc c) (ms[c := ms ! i])
         else compact (Suc i) c ms)
      else take c ms)"
  by pat_completeness auto
termination
  by (relation "measure (\<lambda>(i, c, ms). length ms - i)") auto

declare compact.simps [simp del]

definition horizontalReps :: "slot list \<Rightarrow> child list" where
  "horizontalReps ms = map (\<lambda>j. Span j (title_of (ms ! j))) [0..<length ms]"

text \<open>
  \<^verbatim>\<open>fromDropdownToHorizontalMinimized(ddList)\<close>, the argument being the zone's child at
  index \<open>k\<close>: its previous sibling and the child itself are removed (no previous
  sibling: \<^verbatim>\<open>removeChild(null)\<close>), the registry is compacted, one representation per
  slot is appended.
\<close>

definition fromDropdownToHorizontalMinimized :: "nat \<Rightarrow> minState \<Rightarrow> error + minState" where
  "fromDropdownToHorizontalMinimized k st =
     (if k = 0 then Inl TypeError
      else
        (let cs = removeAt (k - 1) (removeAt (k - 1) (zone st));
             ms = compact 0 0 (minStorage st)
         in Inr (st\<lparr>dropdown := False, minStorage := ms, zone := cs @ horizontalReps ms\<rparr>)))"

text \<open>
  \<^verbatim>\<open>minimizeUI(element)\<close>; \<open>pane\<close> is the id of the pane whose box \<^verbatim>\<open>element\<close> is.
  \<^verbatim>\<open>minStorage[count]\<close> outside the array is \<^verbatim>\<open>undefined\<close>, and reading its title
  throws.
\<close>

definition minimizeUI :: "layout \<Rightarrow> string \<Rightarrow> minState \<Rightarrow> error + minState" where
  "minimizeUI lay pane st =
     (if \<not> dropdown st then
        (let (n, st1) = getItemCountToFitElementByWidth lay (firstElementChild (zone st)) st;
             st2 = st1\<lparr>numItems := n\<rparr>
         in if js_gt (length (minStorage st2)) n then
              (case horizontalRepToDropdownList n st2 of
                 Inl e \<Rightarrow> Inl e
               | Inr st3 \<Rightarrow> Inr (st3\<lparr>dropdown := True, hidden := insert pane (hidden st3)\<rparr>))
            else if count st2 < length (minStorage st2) then
              Inr (st2\<lparr>zone := zone st2 @ [Span (count st2) (title_of (minStorage st2 ! count st2))],
                       hidden := insert pane (hidden st2)\<rparr>)
            else Inl TypeError)
      else
        (case getDropdownList 0 (zone st) of
           None \<Rightarrow> Inl TypeError
         | Some (k, items) \<Rightarrow>
             (if count st < length (minStorage st) then
                Inr (st\<lparr>zone := (zone st)
                           [k := Lst Default
                                   (items @ [(count st, title_of (minStorage st ! count st))])],
                        hidden := insert pane (hidden st)\<rparr>)
              else Inl TypeError)))"

text \<open>
  \<^verbatim>\<open>minimize\<close>: the template \<^verbatim>\<open>{id, title}\<close> of the pane is pushed, a duplicate of the
  entry before it is popped again, otherwise the UI is adjusted.
\<close>

definition minimize :: "layout \<Rightarrow> string \<times> string \<Rightarrow> minState \<Rightarrow> error + minState" where
  "minimize lay template st =
     (let st1 = storeMinimizedElement template st;
          (dup, st2) = deleteDuplicatedItemsMinStorage st1
      in if dup then Inr st2 else minimizeUI lay (fst template) st2)"

text \<open>
  The loop \<^verbatim>\<open>children[i].id = i\<close> over all child nodes of the zone, from index \<open>i\<close>.
\<close>

fun renumber :: "nat \<Rightarrow> child list \<Rightarrow> child list" where
  "renumber i [] = []"
| "renumber i (Span j t # cs) = Span i t # renumber (Suc i) cs"
| "renumber i (Btn e # cs) = Btn (Renumbered i) # renumber (Suc i) cs"
| "renumber i (Lst e items # cs) = Lst (Renumbered i) items # renumber (Suc i) cs"

text \<open>
  The loop \<^verbatim>\<open>for j: if (minStorage[len - 1 - j] == '') minStorage.splice(len - 1 - j, 1)\<close>,
  counted by the index \<open>len - 1 - j\<close> it looks at: \<open>spliceLoop n\<close> has the indices below
  \<open>n\<close> still to visit, from \<open>n - 1\<close> down. An index outside the array reads
  \<^verbatim>\<open>undefined\<close>, which is not \<^verbatim>\<open>== ''\<close>.
\<close>

fun spliceLoop :: "nat \<Rightarrow> slot list \<Rightarrow> slot list" where
  "spliceLoop 0 ms = ms"
| "spliceLoop (Suc k) ms =
     spliceLoop k (if k < length ms \<and> ms ! k = Empty then removeAt k ms else ms)"

text \<open>
  The element a click on a representation has as \<^verbatim>\<open>this\<close>: the zone's child at an
  index (a span), or an item of the list at an index.
\<close>

datatype target = Rep nat | Item nat nat

text \<open>
  \<^verbatim>\<open>maximize\<close>, the click handler of a representation. \<open>Inl NoSuchTarget\<close>: there is no
  such element to click. A slot that is outside the array or empty has no \<^verbatim>\<open>id\<close> to
  look the pane up with, and the handler throws; the pane of an entry is in the
  document.
\<close>

definition maximize :: "target \<Rightarrow> minState \<Rightarrow> error + minState" where
  "maximize this st =
     (let found =
        (case this of
           Rep k \<Rightarrow>
             (if k < length (zone st) then
                (case zone st ! k of
                   Span i t \<Rightarrow> Some (i, removeAt k (zone st))
                 | _ \<Rightarrow> None)
              else None)
         | Item k j \<Rightarrow>
             (if k < length (zone st) then
                (case zone st ! k of
                   Lst e items \<Rightarrow>
                     (if j < length items
                      then Some (fst (items ! j), (zone st)[k := Lst e (removeAt j items)])
                      else None)
                 | _ \<Rightarrow> None)
              else None))
      in case found of
           None \<Rightarrow> Inl NoSuchTarget
         | Some (index, cs) \<Rightarrow>
             (if index < length (minStorage st) then
                (case minStorage st ! index of
                   Empty \<Rightarrow> Inl TypeError
                 | Entry pane t \<Rightarrow>
                     (let st1 = st\<lparr>zone := cs, hidden := hidden st - {pane},
                                   minStorage := (minStorage st)[index := Empty]\<rparr>;
                          r2 =
                            (if dropdown st1 then
                               (case getDropdownList 0 (zone st1) of
                                  None \<Rightarrow> Inl TypeError
                                | Some (k, items) \<Rightarrow>
                                    (if js_le (length items) (numItems st1)
                                     then fromDropdownToHorizontalMinimized k st1
                                     else Inr st1))
                             else Inr st1)
                      in case r2 of
                           Inl e \<Rightarrow> Inl e
                         | Inr st2 \<Rightarrow>
                             (if \<not> dropdown st2 then
                                (if zone st2 = [] then Inr (st2\<lparr>minStorage := []\<rparr>)
                                 else Inr (st2\<lparr>zone := renumber 0 (zone st2),
                                              minStorage :=
                                                spliceLoop (length (minStorage st2)) (minStorage st2)\<rparr>))
                              else Inr st2)))
              else Inl TypeError))"

text \<open>
  \<^verbatim>\<open>updateMinimizedItemsOnWindowChange\<close>, the window-resize handler. In dropdown mode
  the argument of \<^verbatim>\<open>fromDropdownToHorizontalMinimized\<close> is
  \<^verbatim>\<open>minimizeArea.firstElementChild.nextSibling\<close>, the zone's second child.
\<close>

definition updateMinimizedItemsOnWindowChange :: "layout \<Rightarrow> minState \<Rightarrow> error + minState" where
  "updateMinimizedItemsOnWindowChange lay st =
     (if \<not> dropdown st then
        (let (n, st1) = getItemCountToFitElementByWidth lay (firstElementChild (zone st)) st;
             st2 = st1\<lparr>numItems := n\<rparr>
         in if js_gt (length (minStorage st2)) n then
              (case horizontalRepToDropdownList (js_succ n) st2 of
                 Inl e \<Rightarrow> Inl e
               | Inr st3 \<Rightarrow> Inr (st3\<lparr>dropdown := True\<rparr>))
            else Inr st2)
      else
        (let n = floor_div (areaClientWidth lay) (elementWidth st);
             st1 = st\<lparr>numItems := n\<rparr>
         in if js_le (length (minStorage st1)) n then
              (if length (zone st1) < 2 then Inl TypeError
               else
                 (case fromDropdownToHorizontalMinimized 1 st1 of
                    Inl e \<Rightarrow> Inl e
                  | Inr st2 \<Rightarrow> Inr (st2\<lparr>dropdown := False\<rparr>)))
            else Inr st1))"

subsection \<open>The two modes\<close>

text \<open>
  The capacity of the zone as the layout gives it: how many items of the measured
  outer width fit the zone's width.
\<close>

definition itemCapacity :: "layout \<Rightarrow> num" where
  "itemCapacity lay = floor_div (areaClientWidth lay) (Some (itemOuterWidth lay))"

text \<open>
  Strip mode: \<^verbatim>\<open>dropdown\<close> is \<^verbatim>\<open>undefined\<close>, the registry has no empty slot, and the
  zone holds one representation per entry, in the order of the registry, the
  representation of entry \<open>j\<close> with id \<open>j\<close> and the entry's title.
\<close>

definition stripMode :: "minState \<Rightarrow> bool" where
  "stripMode st \<longleftrightarrow>
     \<not> dropdown st \<and> Empty \<notin> set (minStorage st) \<and> zone st = horizontalReps (minStorage st)"

text \<open>
  The items of the slots that are not empty, in the order of the registry, each with
  the index of its slot as id.
\<close>

definition liveItems :: "slot list \<Rightarrow> (nat \<times> string) list" where
  "liveItems ms =
     map (\<lambda>j. (j, title_of (ms ! j))) (filter (\<lambda>j. ms ! j \<noteq> Empty) [0..<length ms])"

text \<open>
  Dropdown mode: \<^verbatim>\<open>dropdown\<close> is \<^verbatim>\<open>true\<close> and the zone holds the button and the list
  and nothing else, the list with one item per slot that is not empty.
\<close>

definition dropdownMode :: "minState \<Rightarrow> bool" where
  "dropdownMode st \<longleftrightarrow>
     dropdown st \<and> zone st = [Btn Default, Lst Default (liveItems (minStorage st))]"

text \<open>
  The events the registry reacts to while the window keeps its size: a pane is minimized,
  or a representation is clicked. A run of events stops at the first handler that
  throws.
\<close>

datatype event = Minimize "string \<times> string" | Click target

fun handleEvent :: "layout \<Rightarrow> event \<Rightarrow> minState \<Rightarrow> error + minState" where
  "handleEvent lay (Minimize template) st = minimize lay template st"
| "handleEvent lay (Click this) st = maximize this st"

fun runEvents :: "layout \<Rightarrow> event list \<Rightarrow> minState \<Rightarrow> error + minState" where
  "runEvents lay [] st = Inr st"
| "runEvents lay (e # es) st =
     (case handleEvent lay e st of Inl err \<Rightarrow> Inl err | Inr st' \<Rightarrow> runEvents lay es st')"

text \<open>
  The states met while the capacity stays \<open>k\<close>: strip mode with at most \<open>k\<close> entries,
  or dropdown mode with more than \<open>k\<close> items and \<^verbatim>\<open>numItems\<close> \<open>= k\<close>.
\<close>

definition wellFormed :: "nat \<Rightarrow> minState \<Rightarrow> bool" where
  "wellFormed k st \<longleftrightarrow>
     (stripMode st \<and> length (minStorage st) \<le> k) \<or>
     (dropdownMode st \<and> numItems st = Num k \<and> k < length (liveItems (minStorage st)))"

text \<open>
  The state after the panes \<open>a\<close>, \<open>b\<close> and \<open>c\<close> were minimized, one after the other,
  into a zone 300px wide with items 100px wide.
\<close>

definition stripOfThree :: minState where
  "stripOfThree =
     \<lparr>minStorage = [Entry ''a'' ''A'', Entry ''b'' ''B'', Entry ''c'' ''C''], count = 2,
      dropdown = False, numItems = Num 3, elementWidth = Some 100,
      zone = [Span 0 ''A'', Span 1 ''B'', Span 2 ''C''], hidden = {''a'', ''b'', ''c''}\<rparr>"

section \<open>Properties of the geometry engine\<close>

subsection \<open>A drag step\<close>

lemma drag_left:
  "styleLeft (drag doc d p) =
     (if offsetLeft p - x_of d < 0 \<or> offsetLeft p - x_of d + offsetWidth p > clientWidth doc
      then offsetLeft p else offsetLeft p - x_of d)"
  by (simp add: drag_def getDragNewPosition_def preventDragOutsideScreen_def
      getElementOffsetAndMeasures_def getDocumentBodyLimits_def Let_def)

lemma drag_top:
  "styleTop (drag doc d p) =
     (if offsetTop p - y_of d < 0 \<or> offsetTop p - y_of d + offsetHeight p > clientHeight doc
      then offsetTop p else offsetTop p - y_of d)"
  by (simp add: drag_def getDragNewPosition_def preventDragOutsideScreen_def
      getElementOffsetAndMeasures_def getDocumentBodyLimits_def Let_def)

lemma drag_frame:
  "width (drag doc d p) = width p \<and> height (drag doc d p) = height p \<and>
   gridColumns (drag doc d p) = gridColumns p \<and> gridRows (drag doc d p) = gridRows p \<and>
   marginLeft (drag doc d p) = marginLeft p \<and> marginTop (drag doc d p) = marginTop p \<and>
   resizable (drag doc d p) = resizable p"
  by (simp add: drag_def Let_def)



text \<open>
  Claim C10. A drag step writes the left and the top offset of the pane and nothing
  else: width and height (and the grid tracks, the margins and whether the pane is
  resizable) are the same after the step, whatever the pane and the mouse drag are, also
  when the movement is rejected.
\<close>

theorem drag_writes_position_only:
  "width (dragAction doc Drag mouseDrag p) = width p \<and>
   height (dragAction doc Drag mouseDrag p) = height p \<and>
   offsetWidth (dragAction doc Drag mouseDrag p) = offsetWidth p \<and>
   offsetHeight (dragAction doc Drag mouseDrag p) = offsetHeight p \<and>
   dragAction doc Drag mouseDrag p =
     p\<lparr>styleLeft := styleLeft (dragAction doc Drag mouseDrag p),
       styleTop := styleTop (dragAction doc Drag mouseDrag p)\<rparr>"
  by (simp add: drag_def Let_def offsetWidth_def offsetHeight_def)

subsection \<open>A resize step\<close>

lemma hzone_cases:
  "getHorizontalResizePointZone rp = None \<or> getHorizontalResizePointZone rp = Some 0 \<or>
   getHorizontalResizePointZone rp = Some 1"
  by (simp add: getHorizontalResizePointZone_def)

lemma vzone_cases:
  "getVerticalResizePointZone rp = None \<or> getVerticalResizePointZone rp = Some 2 \<or>
   getVerticalResizePointZone rp = Some 3"
  by (simp add: getVerticalResizePointZone_def)

text \<open>Each of the eight resize points has a zone on at least one axis.\<close>

lemma resizePoints_zones:
  "\<forall>rp \<in> set resizePoints. getResizePointZone rp \<noteq> (None, None)"
  by (simp add: resizePoints_def getResizePointZone_def getHorizontalResizePointZone_def
      getVerticalResizePointZone_def)

lemma chm_frame:
  "height (changeHorizontalMeasures doc p m z) = height p \<and>
   gridRows (changeHorizontalMeasures doc p m z) = gridRows p \<and>
   styleTop (changeHorizontalMeasures doc p m z) = styleTop p \<and>
   marginTop (changeHorizontalMeasures doc p m z) = marginTop p \<and>
   marginLeft (changeHorizontalMeasures doc p m z) = marginLeft p \<and>
   resizable (changeHorizontalMeasures doc p m z) = resizable p"
  by (simp add: changeHorizontalMeasures_def Let_def split: option.splits)

lemma cvm_frame:
  "width (changeVerticalMeasures doc p m z) = width p \<and>
   gridColumns (changeVerticalMeasures doc p m z) = gridColumns p \<and>
   styleLeft (changeVerticalMeasures doc p m z) = styleLeft p \<and>
   marginLeft (changeVerticalMeasures doc p m z) = marginLeft p \<and>
   marginTop (changeVerticalMeasures doc p m z) = marginTop p \<and>
   resizable (changeVerticalMeasures doc p m z) = resizable p"
  by (simp add: changeVerticalMeasures_def Let_def split: option.splits)


lemma cvm_offsetLeft:
  "offsetLeft (changeVerticalMeasures doc p m z) = offsetLeft p"
  by (simp add: offsetLeft_def cvm_frame)

lemma resize_width:
  "width (changeElementSizeAndPosition doc p rp d) =
     width (changeHorizontalMeasures doc p (x_of d) (getHorizontalResizePointZone rp))"
  by (simp add: changeElementSizeAndPosition_def getResizePointZone_def Let_def cvm_frame)

lemma resize_gridColumns:
  "gridColumns (changeElementSizeAndPosition doc p rp d) =
     gridColumns (changeHorizontalMeasures doc p (x_of d) (getHorizontalResizePointZone rp))"
  by (simp add: changeElementSizeAndPosition_def getResizePointZone_def Let_def cvm_frame)

lemma resize_left:
  "offsetLeft (changeElementSizeAndPosition doc p rp d) =
     offsetLeft (changeHorizontalMeasures doc p (x_of d) (getHorizontalResizePointZone rp))"
  by (simp add: changeElementSizeAndPosition_def getResizePointZone_def Let_def cvm_offsetLeft)







text \<open>
  Claim C5, amended. At a resize point of the right zone the step computes
  \<open>newWidth = width - mouseDrag.x\<close>. It never moves the left offset. It leaves the
  width as it was when \<open>offsetLeft + newWidth + 6 > viewportWidth\<close> or when
  \<open>newWidth < 5\<close>, and in every other case the width becomes \<open>newWidth\<close>: the step
  is rejected exactly when one of the two tests holds. The grid track of the wrapper
  is written with the width.
\<close>

theorem right_zone_rejection:
  fixes doc :: body and p :: pane and resizePoint :: string and mouseDrag :: xy
  assumes "getHorizontalResizePointZone resizePoint = Some 1"
  defines "newWidth \<equiv> width p - x_of mouseDrag"
  defines "p' \<equiv> changeElementSizeAndPosition doc p resizePoint mouseDrag"
  shows "offsetLeft p' = offsetLeft p \<and>
         width p' = (if offsetLeft p + newWidth + 6 > clientWidth doc \<or> newWidth < 5
                     then width p else newWidth) \<and>
         gridColumns p' = (if offsetLeft p + newWidth + 6 > clientWidth doc \<or> newWidth < 5
                     then gridColumns p else newWidth)"
proof -
  let ?h = "changeHorizontalMeasures doc p (x_of mouseDrag) (Some 1)"
  have left: "offsetLeft ?h = offsetLeft p"
    by (simp add: changeHorizontalMeasures_def offsetLeft_def Let_def)
  have size: "width ?h = (if offsetLeft p + newWidth + 6 > clientWidth doc \<or> newWidth < 5
                     then width p else newWidth) \<and>
         gridColumns ?h = (if offsetLeft p + newWidth + 6 > clientWidth doc \<or> newWidth < 5
                     then gridColumns p else newWidth)"
    by (simp add: newWidth_def changeHorizontalMeasures_def Let_def)
  from left size show ?thesis
    using assms(1) by (simp add: p'_def resize_width resize_left resize_gridColumns)
qed

text \<open>
  The example of the specification: viewport 1000 by 800, a pane at offset 990 of
  width 200, the pointer moved 50px to the right on the right resize point. The new
  width would be 250 and \<open>990 + 250 + 6 > 1000\<close>, so the rectangle stays as it is.
\<close>

theorem right_zone_rejection_witness:
  "getHorizontalResizePointZone ''right'' = Some 1 \<and>
   (990 :: int) + (200 - (- 50)) + 6 > 1000 \<and>
   changeElementSizeAndPosition \<lparr>clientWidth = 1000, clientHeight = 800\<rparr>
     \<lparr>resizable = True, styleLeft = 990, styleTop = 10, marginLeft = 0, marginTop = 0,
      width = 200, height = 100, gridColumns = 200, gridRows = 100\<rparr>
     ''right'' \<lparr>x_of = - 50, y_of = 0\<rparr> =
   \<lparr>resizable = True, styleLeft = 990, styleTop = 10, marginLeft = 0, marginTop = 0,
    width = 200, height = 100, gridColumns = 200, gridRows = 100\<rparr>"
proof -
  have z: "getHorizontalResizePointZone ''right'' = Some 1"
    by (simp add: getHorizontalResizePointZone_def)
  have v: "getVerticalResizePointZone ''right'' = None"
    by (simp add: getVerticalResizePointZone_def)
  show ?thesis
    using right_zone_rejection [OF z, of "\<lparr>clientWidth = 1000, clientHeight = 800\<rparr>"
        "\<lparr>resizable = True, styleLeft = 990, styleTop = 10, marginLeft = 0, marginTop = 0,
          width = 200, height = 100, gridColumns = 200, gridRows = 100\<rparr>"
        "\<lparr>x_of = - 50, y_of = 0\<rparr>"]
    by (simp add: z v changeElementSizeAndPosition_def getResizePointZone_def
        changeHorizontalMeasures_def changeVerticalMeasures_def offsetLeft_def Let_def)
qed

text \<open>
  Claim C5 as stated fails: a right-zone step can be rejected while
  \<open>offsetLeft + newWidth + 6 \<le> viewportWidth\<close>. A pane of width 2 grown to 4 and a
  pane of width 200 shrunk to 3 both stay as they are, in a viewport 1000 wide.
\<close>

theorem right_zone_rejection_counterexample:
  "\<not> ((0 :: int) + (2 - (- 2)) + 6 > 1000) \<and>
   changeElementSizeAndPosition \<lparr>clientWidth = 1000, clientHeight = 800\<rparr>
     \<lparr>resizable = True, styleLeft = 0, styleTop = 0, marginLeft = 0, marginTop = 0,
      width = 2, height = 100, gridColumns = 2, gridRows = 100\<rparr>
     ''right'' \<lparr>x_of = - 2, y_of = 0\<rparr> =
   \<lparr>resizable = True, styleLeft = 0, styleTop = 0, marginLeft = 0, marginTop = 0,
    width = 2, height = 100, gridColumns = 2, gridRows = 100\<rparr> \<and>
   \<not> ((0 :: int) + (200 - 197) + 6 > 1000) \<and>
   changeElementSizeAndPosition \<lparr>clientWidth = 1000, clientHeight = 800\<rparr>
     \<lparr>resizable = True, styleLeft = 0, styleTop = 0, marginLeft = 0, marginTop = 0,
      width = 200, height = 100, gridColumns = 200, gridRows = 100\<rparr>
     ''right'' \<lparr>x_of = 197, y_of = 0\<rparr> =
   \<lparr>resizable = True, styleLeft = 0, styleTop = 0, marginLeft = 0, marginTop = 0,
    width = 200, height = 100, gridColumns = 200, gridRows = 100\<rparr>"
  by (simp add: changeElementSizeAndPosition_def getResizePointZone_def
      getHorizontalResizePointZone_def getVerticalResizePointZone_def
      changeHorizontalMeasures_def changeVerticalMeasures_def offsetLeft_def Let_def)

subsection \<open>Sequences of steps\<close>

text \<open>
  Claim C1 fails on the code for a pane with a margin. The pane \<open>win1\<close> of the maximize
  example below (margin 10px, left 30px, top 20px, 200 by 150, so laid out at
  \<open>(40, 30)\<close>) is inside a viewport 1000 by 800. The pointer drags it 760px to the
  right. The step reads \<open>offsetLeft = 40\<close> and \<open>offsetTop = 30\<close>, finds the right edge
  of the new rectangle at \<open>800 + 200 = 1000\<close>, inside the viewport, and writes
  \<open>left = 800\<close> and \<open>top = 30\<close>. The layout adds the margin to what was written: the
  pane now is at \<open>(810, 40)\<close> and its right edge at 1010, outside the viewport. A
  second step with no pointer movement reads \<open>offsetLeft = 810\<close>, finds the right edge
  crossed, and writes the offset it read, \<open>left = 810\<close>, as the previous position: the
  rejected step moves the pane another 10px, to \<open>(820, 50)\<close>.
\<close>

theorem drag_with_margin_leaves_viewport:
  "inViewport \<lparr>clientWidth = 1000, clientHeight = 800\<rparr>
     \<lparr>resizable = False, styleLeft = 30, styleTop = 20, marginLeft = 10, marginTop = 10,
      width = 200, height = 150, gridColumns = 200, gridRows = 150\<rparr> \<and>
   committed \<lparr>clientWidth = 1000, clientHeight = 800\<rparr>
     \<lparr>resizable = False, styleLeft = 30, styleTop = 20, marginLeft = 10, marginTop = 10,
      width = 200, height = 150, gridColumns = 200, gridRows = 150\<rparr>
     [(Drag, \<lparr>x_of = - 760, y_of = 0\<rparr>), (Drag, \<lparr>x_of = 0, y_of = 0\<rparr>)] =
   [\<lparr>resizable = False, styleLeft = 800, styleTop = 30, marginLeft = 10, marginTop = 10,
     width = 200, height = 150, gridColumns = 200, gridRows = 150\<rparr>,
    \<lparr>resizable = False, styleLeft = 810, styleTop = 40, marginLeft = 10, marginTop = 10,
     width = 200, height = 150, gridColumns = 200, gridRows = 150\<rparr>] \<and>
   offsetLeft
     \<lparr>resizable = False, styleLeft = 800, styleTop = 30, marginLeft = 10, marginTop = 10,
      width = 200, height = 150, gridColumns = 200, gridRows = 150\<rparr> = 810 \<and>
   \<not> inViewport \<lparr>clientWidth = 1000, clientHeight = 800\<rparr>
     \<lparr>resizable = False, styleLeft = 800, styleTop = 30, marginLeft = 10, marginTop = 10,
      width = 200, height = 150, gridColumns = 200, gridRows = 150\<rparr> \<and>
   offsetLeft
     \<lparr>resizable = False, styleLeft = 810, styleTop = 40, marginLeft = 10, marginTop = 10,
      width = 200, height = 150, gridColumns = 200, gridRows = 150\<rparr> = 820 \<and>
   \<not> inViewport \<lparr>clientWidth = 1000, clientHeight = 800\<rparr>
     \<lparr>resizable = False, styleLeft = 810, styleTop = 40, marginLeft = 10, marginTop = 10,
      width = 200, height = 150, gridColumns = 200, gridRows = 150\<rparr>"
  by (simp add: inViewport_def Let_def drag_def getDragNewPosition_def
      preventDragOutsideScreen_def getElementOffsetAndMeasures_def getDocumentBodyLimits_def
      offsetLeft_def offsetTop_def offsetWidth_def offsetHeight_def)

text \<open>
  The steps do keep a pane inside the viewport when it has no margin and the grid track
  of its wrapper is as large as its element: then each step reads back the offsets the
  step before it wrote, and these two conditions and the four bounds hold again after
  the step.
\<close>

lemma dragAction_noMargin: "noMargin (dragAction doc a d p) = noMargin p"
  by (cases a)
     (simp_all add: noMargin_def drag_frame changeElementSizeAndPosition_def
        getResizePointZone_def Let_def cvm_frame chm_frame)

lemma chm_synced: "synced p \<Longrightarrow> synced (changeHorizontalMeasures doc p m z)"
  by (simp add: synced_def changeHorizontalMeasures_def Let_def split: option.splits)

lemma cvm_synced: "synced p \<Longrightarrow> synced (changeVerticalMeasures doc p m z)"
  by (simp add: synced_def changeVerticalMeasures_def Let_def split: option.splits)

lemma dragAction_synced: "synced p \<Longrightarrow> synced (dragAction doc a d p)"
  by (cases a)
     (simp_all add: changeElementSizeAndPosition_def Let_def chm_synced cvm_synced,
       simp add: synced_def drag_frame)

lemma drag_inViewport:
  "noMargin p \<Longrightarrow> synced p \<Longrightarrow> inViewport doc p \<Longrightarrow> inViewport doc (drag doc d p)"
  unfolding inViewport_def noMargin_def synced_def
  by (simp add: offsetLeft_def offsetTop_def drag_left drag_top drag_frame offsetWidth_def
      offsetHeight_def)

lemma chm_inViewport:
  "noMargin p \<Longrightarrow> inViewport doc p \<Longrightarrow> z = None \<or> z = Some 0 \<or> z = Some 1 \<Longrightarrow>
   inViewport doc (changeHorizontalMeasures doc p m z)"
  unfolding inViewport_def noMargin_def changeHorizontalMeasures_def
  by (auto simp: offsetLeft_def offsetTop_def Let_def split: option.splits)

lemma cvm_inViewport:
  "noMargin p \<Longrightarrow> inViewport doc p \<Longrightarrow> z = None \<or> z = Some 2 \<or> z = Some 3 \<Longrightarrow>
   inViewport doc (changeVerticalMeasures doc p m z)"
  unfolding inViewport_def noMargin_def changeVerticalMeasures_def
  by (auto simp: offsetLeft_def offsetTop_def Let_def split: option.splits)

lemma chm_noMargin: "noMargin (changeHorizontalMeasures doc p m z) = noMargin p"
  by (simp add: noMargin_def chm_frame)

lemma resize_inViewport:
  "noMargin p \<Longrightarrow> inViewport doc p \<Longrightarrow>
   inViewport doc (changeElementSizeAndPosition doc p rp d)"
  unfolding changeElementSizeAndPosition_def getResizePointZone_def Let_def fst_conv snd_conv
  by (intro cvm_inViewport chm_inViewport hzone_cases vzone_cases)
     (simp_all add: chm_noMargin)

lemma dragAction_inViewport:
  "noMargin p \<Longrightarrow> synced p \<Longrightarrow> inViewport doc p \<Longrightarrow>
   inViewport doc (dragAction doc a d p)"
  by (cases a) (simp_all add: drag_inViewport resize_inViewport)

lemma containment_without_margin:
  "noMargin p \<Longrightarrow> synced p \<Longrightarrow> inViewport doc p \<Longrightarrow>
   list_all (inViewport doc) (committed doc p steps)"
proof (induction steps arbitrary: p)
  case Nil
  then show ?case by simp
next
  case (Cons s steps)
  let ?p = "dragAction doc (fst s) (snd s) p"
  have "noMargin ?p" "synced ?p" "inViewport doc ?p"
    using Cons.prems by (simp_all add: dragAction_noMargin dragAction_synced dragAction_inViewport)
  with Cons.IH [of ?p] show ?case by (simp add: Let_def)
qed

text \<open>
  A pane without margin at \<open>(10, 10)\<close>, 200 by 100, in a viewport 1000 by 800: a drag
  far to the right and up (both axes rejected), a resize at the lower right corner
  (grows by 50 each way), a resize at the upper left corner that would pass the left
  edge (horizontal part rejected, vertical part taken).
\<close>

lemma containment_without_margin_example:
  "committed \<lparr>clientWidth = 1000, clientHeight = 800\<rparr>
     \<lparr>resizable = True, styleLeft = 10, styleTop = 10, marginLeft = 0, marginTop = 0,
      width = 200, height = 100, gridColumns = 200, gridRows = 100\<rparr>
     [(Drag, \<lparr>x_of = - 2000, y_of = 50\<rparr>),
      (Resize ''lowerRight'', \<lparr>x_of = - 50, y_of = - 50\<rparr>),
      (Resize ''upperLeft'', \<lparr>x_of = 20, y_of = 5\<rparr>)] =
   [\<lparr>resizable = True, styleLeft = 10, styleTop = 10, marginLeft = 0, marginTop = 0,
     width = 200, height = 100, gridColumns = 200, gridRows = 100\<rparr>,
    \<lparr>resizable = True, styleLeft = 10, styleTop = 10, marginLeft = 0, marginTop = 0,
     width = 250, height = 150, gridColumns = 250, gridRows = 150\<rparr>,
    \<lparr>resizable = True, styleLeft = 10, styleTop = 5, marginLeft = 0, marginTop = 0,
     width = 250, height = 155, gridColumns = 250, gridRows = 155\<rparr>]"
  by (simp add: Let_def drag_def getDragNewPosition_def preventDragOutsideScreen_def
      getElementOffsetAndMeasures_def getDocumentBodyLimits_def offsetWidth_def
      offsetHeight_def offsetLeft_def offsetTop_def changeElementSizeAndPosition_def
      getResizePointZone_def getHorizontalResizePointZone_def getVerticalResizePointZone_def
      changeHorizontalMeasures_def changeVerticalMeasures_def)

text \<open>A whole session of mouse moves with one action keeps the bounds likewise.\<close>

lemma trackMouseDragPlusAction_inViewport:
  "noMargin p \<Longrightarrow> synced p \<Longrightarrow> inViewport doc p \<Longrightarrow>
   inViewport doc (trackMouseDragPlusAction doc act c1 cs p)"
proof (induction cs arbitrary: c1 p)
  case Nil
  then show ?case by simp
next
  case (Cons c2 cs)
  then show ?case
    by (simp add: Let_def dragAction_noMargin dragAction_synced dragAction_inViewport)
qed

text \<open>
  The same holds for the whole box of the pane (for a resizable pane the wrapper with
  its resize points, which is the box the tests of the handlers are about).
\<close>

lemma dragAction_boxInViewport:
  assumes nm: "noMargin p" and sy: "synced p" and box: "boxInViewport doc p"
  shows "boxInViewport doc (dragAction doc a d p)"
proof (cases a)
  case (Resize rp)
  let ?h = "changeHorizontalMeasures doc p (x_of d) (getHorizontalResizePointZone rp)"
  have h: "boxInViewport doc ?h \<and> noMargin ?h \<and> synced ?h"
    using nm sy box hzone_cases [of rp]
    unfolding boxInViewport_def offsetWidth_def offsetHeight_def changeHorizontalMeasures_def
      noMargin_def synced_def offsetLeft_def offsetTop_def
    by (auto simp: Let_def split: option.splits)
  have "boxInViewport doc (changeVerticalMeasures doc ?h (y_of d) (getVerticalResizePointZone rp))"
    using h vzone_cases [of rp]
    unfolding boxInViewport_def offsetWidth_def offsetHeight_def changeVerticalMeasures_def
      noMargin_def synced_def offsetLeft_def offsetTop_def
    by (auto simp: Let_def split: option.splits)
  then show ?thesis
    by (simp add: Resize changeElementSizeAndPosition_def getResizePointZone_def Let_def)
next
  case Drag
  show ?thesis
    using nm box unfolding boxInViewport_def noMargin_def
    by (auto simp: Drag offsetLeft_def offsetTop_def drag_left drag_top drag_frame
        offsetWidth_def offsetHeight_def split: if_splits)
qed

lemma box_containment_without_margin:
  "noMargin p \<Longrightarrow> synced p \<Longrightarrow> boxInViewport doc p \<Longrightarrow>
   list_all (boxInViewport doc) (committed doc p steps)"
proof (induction steps arbitrary: p)
  case Nil
  then show ?case by simp
next
  case (Cons s steps)
  let ?p = "dragAction doc (fst s) (snd s) p"
  have "noMargin ?p" "synced ?p" "boxInViewport doc ?p"
    using Cons.prems
    by (simp_all add: dragAction_noMargin dragAction_synced dragAction_boxInViewport)
  with Cons.IH [of ?p] show ?case by (simp add: Let_def)
qed

subsection \<open>The window-resize containment pass\<close>

lemma resizeLoop_eq:
  "resizeLoop doc i ps = take i ps @ map (\<lambda>p. adjustHeight doc (adjustWidth doc p)) (drop i ps)"
proof (induction doc i ps rule: resizeLoop.induct)
  case (1 doc i parents)
  let ?f = "\<lambda>p. adjustHeight doc (adjustWidth doc p)"
  show ?case
  proof (cases "i < length parents")
    case True
    have "resizeLoop doc i parents = resizeLoop doc (Suc i) (parents[i := ?f (parents ! i)])"
      using True by (subst resizeLoop.simps) simp
    also have "\<dots> = take (Suc i) (parents[i := ?f (parents ! i)]) @
        map ?f (drop (Suc i) (parents[i := ?f (parents ! i)]))"
      using 1 True by simp
    also have "\<dots> = take i parents @ [?f (parents ! i)] @ map ?f (drop (Suc i) parents)"
      using True by (simp add: take_Suc_conv_app_nth)
    also have "\<dots> = take i parents @ map ?f (drop i parents)"
      using True by (simp add: Cons_nth_drop_Suc [symmetric])
    finally show ?thesis .
  next
    case False
    then show ?thesis by (subst resizeLoop.simps) simp
  qed
qed

lemma resizeOnWindowChange_map:
  "resizeOnWindowChange doc ps = map (\<lambda>p. adjustHeight doc (adjustWidth doc p)) ps"
  by (simp add: resizeOnWindowChange_def resizeLoop_eq)

lemma adjustWidth_frame:
  "height (adjustWidth doc p) = height p \<and> gridRows (adjustWidth doc p) = gridRows p \<and>
   styleTop (adjustWidth doc p) = styleTop p \<and> offsetTop (adjustWidth doc p) = offsetTop p \<and>
   marginLeft (adjustWidth doc p) = marginLeft p \<and> marginTop (adjustWidth doc p) = marginTop p \<and>
   resizable (adjustWidth doc p) = resizable p"
  by (simp add: adjustWidth_def offsetTop_def Let_def)

lemma adjustHeight_frame:
  "width (adjustHeight doc p) = width p \<and> gridColumns (adjustHeight doc p) = gridColumns p \<and>
   styleLeft (adjustHeight doc p) = styleLeft p \<and> offsetLeft (adjustHeight doc p) = offsetLeft p \<and>
   marginLeft (adjustHeight doc p) = marginLeft p \<and> marginTop (adjustHeight doc p) = marginTop p \<and>
   resizable (adjustHeight doc p) = resizable p"
  by (simp add: adjustHeight_def offsetLeft_def Let_def)

text \<open>
  Claim C6, amended. The pass keeps the list of wrappers and rewrites every one of
  them, each from its own geometry alone. For a wrapper with
  \<open>offsetLeft + width + 6 > viewportWidth\<close>: when \<open>viewportWidth - offsetLeft - 6\<close> is
  at least 5 the width (of the element and of the grid track) becomes that number and
  the left offset stays; otherwise the left offset (\<^verbatim>\<open>style.left\<close>) becomes
  \<open>viewportWidth - 11\<close> (room for 5px and the 6px of resize points up to the right
  edge) and the width stays. A wrapper that does not overflow keeps both. Height and
  top offset follow the same rule against the viewport height, except that the top
  offset is only moved when \<open>viewportHeight - 11 \<ge> 0\<close>; when it is negative the
  vertical geometry stays as it is.
\<close>

theorem window_resize_pass:
  fixes doc :: body and parents :: "pane list"
  defines "vw \<equiv> clientWidth doc" and "vh \<equiv> clientHeight doc"
  shows "length (resizeOnWindowChange doc parents) = length parents \<and>
    (\<forall>i < length parents.
       let p = parents ! i; p' = resizeOnWindowChange doc parents ! i in
       resizable p' = resizable p \<and>
       marginLeft p' = marginLeft p \<and> marginTop p' = marginTop p \<and>
       styleLeft p' =
         (if offsetLeft p + width p + 6 > vw \<and> vw - offsetLeft p - 6 < 5
          then vw - 11 else styleLeft p) \<and>
       width p' =
         (if offsetLeft p + width p + 6 > vw \<and> vw - offsetLeft p - 6 \<ge> 5
          then vw - offsetLeft p - 6 else width p) \<and>
       gridColumns p' =
         (if offsetLeft p + width p + 6 > vw \<and> vw - offsetLeft p - 6 \<ge> 5
          then vw - offsetLeft p - 6 else gridColumns p) \<and>
       styleTop p' =
         (if offsetTop p + height p + 6 > vh \<and> vh - offsetTop p - 6 < 5 \<and> vh - 11 \<ge> 0
          then vh - 11 else styleTop p) \<and>
       height p' =
         (if offsetTop p + height p + 6 > vh \<and> vh - offsetTop p - 6 \<ge> 5
          then vh - offsetTop p - 6 else height p) \<and>
       gridRows p' =
         (if offsetTop p + height p + 6 > vh \<and> vh - offsetTop p - 6 \<ge> 5
          then vh - offsetTop p - 6 else gridRows p))"
  by (simp add: resizeOnWindowChange_map Let_def adjustWidth_frame adjustHeight_frame
      vw_def vh_def)
     (simp add: adjustWidth_def adjustHeight_def offsetLeft_def offsetTop_def Let_def)

text \<open>
  Viewport 500 by 400 and three wrappers: the first overflows to the right and below
  and is shrunk on both axes; the second starts too far right and too far down to keep
  5px, and is moved to \<open>(489, 389)\<close>; the third fits and is left alone.
\<close>

theorem window_resize_pass_witness:
  "resizeOnWindowChange \<lparr>clientWidth = 500, clientHeight = 400\<rparr>
     [\<lparr>resizable = True, styleLeft = 400, styleTop = 300, marginLeft = 0, marginTop = 0,
       width = 200, height = 150, gridColumns = 200, gridRows = 150\<rparr>,
      \<lparr>resizable = True, styleLeft = 495, styleTop = 398, marginLeft = 0, marginTop = 0,
       width = 200, height = 150, gridColumns = 200, gridRows = 150\<rparr>,
      \<lparr>resizable = True, styleLeft = 10, styleTop = 10, marginLeft = 0, marginTop = 0,
       width = 200, height = 150, gridColumns = 200, gridRows = 150\<rparr>] ! 1 =
    \<lparr>resizable = True, styleLeft = 489, styleTop = 389, marginLeft = 0, marginTop = 0,
     width = 200, height = 150, gridColumns = 200, gridRows = 150\<rparr> \<and>
   resizeOnWindowChange \<lparr>clientWidth = 500, clientHeight = 400\<rparr>
     [\<lparr>resizable = True, styleLeft = 400, styleTop = 300, marginLeft = 0, marginTop = 0,
       width = 200, height = 150, gridColumns = 200, gridRows = 150\<rparr>,
      \<lparr>resizable = True, styleLeft = 495, styleTop = 398, marginLeft = 0, marginTop = 0,
       width = 200, height = 150, gridColumns = 200, gridRows = 150\<rparr>,
      \<lparr>resizable = True, styleLeft = 10, styleTop = 10, marginLeft = 0, marginTop = 0,
       width = 200, height = 150, gridColumns = 200, gridRows = 150\<rparr>] ! 0 =
    \<lparr>resizable = True, styleLeft = 400, styleTop = 300, marginLeft = 0, marginTop = 0,
     width = 94, height = 94, gridColumns = 94, gridRows = 94\<rparr>"
proof -
  let ?doc = "\<lparr>clientWidth = 500, clientHeight = 400\<rparr>"
  let ?ps = "[\<lparr>resizable = True, styleLeft = 400, styleTop = 300, marginLeft = 0, marginTop = 0,
       width = 200, height = 150, gridColumns = 200, gridRows = 150\<rparr>,
      \<lparr>resizable = True, styleLeft = 495, styleTop = 398, marginLeft = 0, marginTop = 0,
       width = 200, height = 150, gridColumns = 200, gridRows = 150\<rparr>,
      \<lparr>resizable = True, styleLeft = 10, styleTop = 10, marginLeft = 0, marginTop = 0,
       width = 200, height = 150, gridColumns = 200, gridRows = 150\<rparr>]"
  let ?P = "\<lambda>i. let p = ?ps ! i; p' = resizeOnWindowChange ?doc ?ps ! i in
       resizable p' = resizable p \<and>
       marginLeft p' = marginLeft p \<and> marginTop p' = marginTop p \<and>
       styleLeft p' =
         (if offsetLeft p + width p + 6 > clientWidth ?doc \<and> clientWidth ?doc - offsetLeft p - 6 < 5
          then clientWidth ?doc - 11 else styleLeft p) \<and>
       width p' =
         (if offsetLeft p + width p + 6 > clientWidth ?doc \<and> clientWidth ?doc - offsetLeft p - 6 \<ge> 5
          then clientWidth ?doc - offsetLeft p - 6 else width p) \<and>
       gridColumns p' =
         (if offsetLeft p + width p + 6 > clientWidth ?doc \<and> clientWidth ?doc - offsetLeft p - 6 \<ge> 5
          then clientWidth ?doc - offsetLeft p - 6 else gridColumns p) \<and>
       styleTop p' =
         (if offsetTop p + height p + 6 > clientHeight ?doc \<and> clientHeight ?doc - offsetTop p - 6 < 5 \<and> clientHeight ?doc - 11 \<ge> 0
          then clientHeight ?doc - 11 else styleTop p) \<and>
       height p' =
         (if offsetTop p + height p + 6 > clientHeight ?doc \<and> clientHeight ?doc - offsetTop p - 6 \<ge> 5
          then clientHeight ?doc - offsetTop p - 6 else height p) \<and>
       gridRows p' =
         (if offsetTop p + height p + 6 > clientHeight ?doc \<and> clientHeight ?doc - offsetTop p - 6 \<ge> 5
          then clientHeight ?doc - offsetTop p - 6 else gridRows p)"
  have all: "\<forall>i < length ?ps. ?P i"
    using window_resize_pass [of ?doc ?ps] by (rule conjunct2)
  have one: "(1::nat) < length ?ps"
    by simp
  from all one have "?P 1"
    by blast
  then have p1: "resizeOnWindowChange ?doc ?ps ! 1 =
      \<lparr>resizable = True, styleLeft = 489, styleTop = 389, marginLeft = 0, marginTop = 0,
       width = 200, height = 150, gridColumns = 200, gridRows = 150\<rparr>"
    by (cases "resizeOnWindowChange ?doc ?ps ! 1")
       (simp add: Let_def offsetLeft_def offsetTop_def)
  have p0: "resizeOnWindowChange ?doc ?ps ! 0 =
      \<lparr>resizable = True, styleLeft = 400, styleTop = 300, marginLeft = 0, marginTop = 0,
       width = 94, height = 94, gridColumns = 94, gridRows = 94\<rparr>"
    by (simp add: resizeOnWindowChange_map adjustWidth_def adjustHeight_def offsetLeft_def
        offsetTop_def Let_def)
  from p1 p0 show ?thesis by simp
qed

text \<open>
  Claim C6 as stated fails on the vertical axis. In a viewport 8px wide the pass moves
  an overflowing wrapper's left offset to \<open>8 - 11\<close>; in a viewport 8px high the same
  wrapper's top offset is not moved.
\<close>

theorem window_resize_pass_counterexample:
  "resizeOnWindowChange \<lparr>clientWidth = 8, clientHeight = 1000\<rparr>
     [\<lparr>resizable = True, styleLeft = 0, styleTop = 0, marginLeft = 0, marginTop = 0,
       width = 100, height = 100, gridColumns = 100, gridRows = 100\<rparr>] =
   [\<lparr>resizable = True, styleLeft = - 3, styleTop = 0, marginLeft = 0, marginTop = 0,
     width = 100, height = 100, gridColumns = 100, gridRows = 100\<rparr>] \<and>
   resizeOnWindowChange \<lparr>clientWidth = 1000, clientHeight = 8\<rparr>
     [\<lparr>resizable = True, styleLeft = 0, styleTop = 0, marginLeft = 0, marginTop = 0,
       width = 100, height = 100, gridColumns = 100, gridRows = 100\<rparr>] =
   [\<lparr>resizable = True, styleLeft = 0, styleTop = 0, marginLeft = 0, marginTop = 0,
     width = 100, height = 100, gridColumns = 100, gridRows = 100\<rparr>]"
  by (simp add: resizeOnWindowChange_map adjustWidth_def adjustHeight_def offsetLeft_def
      offsetTop_def Let_def)

section \<open>Properties of the maximize control\<close>

text \<open>
  What two clicks on the maximize button do to a pane that is not maximized: the
  snapshot is gone again, and top, left, width and height of a plain element, or top,
  left and the two grid templates of a wrapper, are what \<^verbatim>\<open>getComputedStyle\<close> reported
  before the first click. The margin stays at the \<^verbatim>\<open>0px\<close> of the maximized state, and
  the element inside a wrapper keeps the width and height \<^verbatim>\<open>100%\<close>.
\<close>

lemma maximize_then_restore:
  assumes "maxStorage st (element_id st) = None"
  shows "maxBtn_onclick win (maxBtn_onclick win st) =
     (if isResizable st then
        st\<lparr>element_style := (element_style st)\<lparr>s_width := ''100%'', s_height := ''100%''\<rparr>,
           parent_style := (parent_style st)\<lparr>s_margin := ''0px''\<rparr>\<rparr>
      else st\<lparr>element_style := (element_style st)\<lparr>s_margin := ''0px''\<rparr>\<rparr>)"
proof -
  have m: "(maxStorage st)(element_id st := None) = maxStorage st"
    using assms by (simp add: fun_upd_idem_iff)
  show ?thesis
    using assms m
    by (simp add: maxBtn_onclick_def Let_def getElementSizeAndPosition_def assign_def
        a_margin_def)
qed

text \<open>
  Claim C4, evaluated where it fails. A plain pane \<open>win1\<close> with a margin of 10px at
  top 20px, left 30px, 200px by 150px, in a window 1000 by 800: the first click
  maximizes it, the second restores top, left, width and height and clears the
  snapshot, but the margin is \<^verbatim>\<open>0px\<close> and not the \<^verbatim>\<open>10px\<close> from before.
\<close>

theorem maximize_restore_loses_margin:
  "maxBtn_onclick
     \<lparr>innerWidth = 1000, innerHeight = 800, documentElementClientWidth = 1000,
      documentElementClientHeight = 800, bodyClientWidth = 1000, bodyClientHeight = 800\<rparr>
     \<lparr>element_id = ''win1'', isResizable = False,
      element_style = \<lparr>s_top = ''20px'', s_left = ''30px'', s_margin = ''10px'',
        s_width = ''200px'', s_height = ''150px'', s_gridTemplateRows = ''none'',
        s_gridTemplateColumns = ''none''\<rparr>,
      parent_style = \<lparr>s_top = ''auto'', s_left = ''auto'', s_margin = ''0px'',
        s_width = ''1000px'', s_height = ''800px'', s_gridTemplateRows = ''none'',
        s_gridTemplateColumns = ''none''\<rparr>,
      maxStorage = Map.empty\<rparr> =
   \<lparr>element_id = ''win1'', isResizable = False,
    element_style = \<lparr>s_top = ''0px'', s_left = ''0px'', s_margin = ''0px'',
      s_width = ''1000px'', s_height = ''800px'', s_gridTemplateRows = ''none'',
      s_gridTemplateColumns = ''none''\<rparr>,
    parent_style = \<lparr>s_top = ''auto'', s_left = ''auto'', s_margin = ''0px'',
      s_width = ''1000px'', s_height = ''800px'', s_gridTemplateRows = ''none'',
      s_gridTemplateColumns = ''none''\<rparr>,
    maxStorage = [''win1'' \<mapsto>
      \<lparr>a_width = ''200px'', a_height = ''150px'', a_top = ''20px'', a_left = ''30px'',
       a_gridCol = ''none'', a_gridRow = ''none''\<rparr>]\<rparr> \<and>
   maxBtn_onclick
     \<lparr>innerWidth = 1000, innerHeight = 800, documentElementClientWidth = 1000,
      documentElementClientHeight = 800, bodyClientWidth = 1000, bodyClientHeight = 800\<rparr>
     \<lparr>element_id = ''win1'', isResizable = False,
      element_style = \<lparr>s_top = ''0px'', s_left = ''0px'', s_margin = ''0px'',
        s_width = ''1000px'', s_height = ''800px'', s_gridTemplateRows = ''none'',
        s_gridTemplateColumns = ''none''\<rparr>,
      parent_style = \<lparr>s_top = ''auto'', s_left = ''auto'', s_margin = ''0px'',
        s_width = ''1000px'', s_height = ''800px'', s_gridTemplateRows = ''none'',
        s_gridTemplateColumns = ''none''\<rparr>,
      maxStorage = [''win1'' \<mapsto>
        \<lparr>a_width = ''200px'', a_height = ''150px'', a_top = ''20px'', a_left = ''30px'',
         a_gridCol = ''none'', a_gridRow = ''none''\<rparr>]\<rparr> =
   \<lparr>element_id = ''win1'', isResizable = False,
    element_style = \<lparr>s_top = ''20px'', s_left = ''30px'', s_margin = ''0px'',
      s_width = ''200px'', s_height = ''150px'', s_gridTemplateRows = ''none'',
      s_gridTemplateColumns = ''none''\<rparr>,
    parent_style = \<lparr>s_top = ''auto'', s_left = ''auto'', s_margin = ''0px'',
      s_width = ''1000px'', s_height = ''800px'', s_gridTemplateRows = ''none'',
      s_gridTemplateColumns = ''none''\<rparr>,
    maxStorage = Map.empty\<rparr>"
  by (simp add: maxBtn_onclick_def Let_def firstTruthy_def getElementSizeAndPosition_def
      assign_def a_margin_def toString_def digits.simps)

section \<open>Properties of the minimized registry\<close>

subsection \<open>The loops\<close>

lemma length_removeAt: "k < length xs \<Longrightarrow> length (removeAt k xs) = length xs - 1"
  by (simp add: removeAt_def)

lemma nth_removeAt: "k < length xs \<Longrightarrow> j < length xs - 1 \<Longrightarrow>
   removeAt k xs ! j = (if j < k then xs ! j else xs ! Suc j)"
  by (auto simp: removeAt_def nth_append min_def)

lemma removeAt_0 [simp]: "removeAt 0 (x # xs) = xs"
  by (simp add: removeAt_def)

lemma spliceLoop_filter:
  "k \<le> length ms \<Longrightarrow> spliceLoop k ms = filter (\<lambda>x. x \<noteq> Empty) (take k ms) @ drop k ms"
proof (induction k arbitrary: ms)
  case 0
  then show ?case by simp
next
  case (Suc k)
  then have k: "k < length ms" by simp
  show ?case
  proof (cases "ms ! k = Empty")
    case True
    have "spliceLoop (Suc k) ms = spliceLoop k (removeAt k ms)"
      using k True by simp
    also have "\<dots> = filter (\<lambda>x. x \<noteq> Empty) (take k (removeAt k ms)) @ drop k (removeAt k ms)"
      using k by (intro Suc.IH) (simp add: removeAt_def)
    also have "\<dots> = filter (\<lambda>x. x \<noteq> Empty) (take k ms) @ drop (Suc k) ms"
      using k by (simp add: removeAt_def)
    also have "\<dots> = filter (\<lambda>x. x \<noteq> Empty) (take (Suc k) ms) @ drop (Suc k) ms"
      using k True by (simp add: take_Suc_conv_app_nth)
    finally show ?thesis .
  next
    case False
    have "spliceLoop (Suc k) ms = spliceLoop k ms"
      using False by simp
    also have "\<dots> = filter (\<lambda>x. x \<noteq> Empty) (take k ms) @ drop k ms"
      using k by (intro Suc.IH) simp
    also have "\<dots> = filter (\<lambda>x. x \<noteq> Empty) (take (Suc k) ms) @ drop (Suc k) ms"
      using k False by (simp add: take_Suc_conv_app_nth Cons_nth_drop_Suc)
    finally show ?thesis .
  qed
qed

lemma spliceLoop_all: "spliceLoop (length ms) ms = filter (\<lambda>x. x \<noteq> Empty) ms"
  by (simp add: spliceLoop_filter)

lemma compact_filter:
  "c \<le> i \<Longrightarrow> i \<le> length ms \<Longrightarrow>
   compact i c ms = take c ms @ filter (\<lambda>x. x \<noteq> Empty) (drop i ms)"
proof (induction i c ms rule: compact.induct)
  case (1 i c ms)
  show ?case
  proof (cases "i < length ms")
    case True
    note i = True
    show ?thesis
    proof (cases "ms ! i \<noteq> Empty")
      case True
      have "compact i c ms = compact (Suc i) (Suc c) (ms[c := ms ! i])"
        using i True by (subst compact.simps) simp
      also have "\<dots> = take (Suc c) (ms[c := ms ! i]) @
          filter (\<lambda>x. x \<noteq> Empty) (drop (Suc i) (ms[c := ms ! i]))"
        using "1.IH"(1) [OF i True] "1.prems" i by simp
      also have "\<dots> = take c ms @ [ms ! i] @ filter (\<lambda>x. x \<noteq> Empty) (drop (Suc i) ms)"
        using "1.prems" i by (simp add: take_Suc_conv_app_nth)
      also have "\<dots> = take c ms @ filter (\<lambda>x. x \<noteq> Empty) (drop i ms)"
        using i True by (simp add: Cons_nth_drop_Suc [symmetric])
      finally show ?thesis .
    next
      case False
      have "compact i c ms = compact (Suc i) c ms"
        using i False by (subst compact.simps) simp
      also have "\<dots> = take c ms @ filter (\<lambda>x. x \<noteq> Empty) (drop (Suc i) ms)"
        using "1.IH"(2) [OF i False] "1.prems" i by simp
      also have "\<dots> = take c ms @ filter (\<lambda>x. x \<noteq> Empty) (drop i ms)"
        using i False by (simp add: Cons_nth_drop_Suc [symmetric])
      finally show ?thesis .
    qed
  next
    case False
    then show ?thesis using "1.prems" by (subst compact.simps) simp
  qed
qed

lemma compact_all: "compact 0 0 ms = filter (\<lambda>x. x \<noteq> Empty) ms"
  by (simp add: compact_filter)

lemma length_renumber [simp]: "length (renumber i cs) = length cs"
  by (induction i cs rule: renumber.induct) simp_all

lemma nth_renumber_span:
  "j < length cs \<Longrightarrow> cs ! j = Span a t \<Longrightarrow> renumber i cs ! j = Span (i + j) t"
proof (induction i cs arbitrary: j rule: renumber.induct)
  case (1 i)
  then show ?case by simp
next
  case (2 i b u cs)
  then show ?case by (cases j) simp_all
next
  case (3 i e cs)
  then show ?case by (cases j) simp_all
next
  case (4 i e items cs)
  then show ?case by (cases j) simp_all
qed

lemma length_horizontalReps [simp]: "length (horizontalReps ms) = length ms"
  by (simp add: horizontalReps_def)

lemma nth_horizontalReps [simp]:
  "j < length ms \<Longrightarrow> horizontalReps ms ! j = Span j (title_of (ms ! j))"
  by (simp add: horizontalReps_def)

lemma renumber_removeAt_reps:
  assumes "i < length ms"
  shows "renumber 0 (removeAt i (horizontalReps ms)) = horizontalReps (removeAt i ms)"
proof (rule nth_equalityI)
  show "length (renumber 0 (removeAt i (horizontalReps ms))) = length (horizontalReps (removeAt i ms))"
    using assms by (simp add: length_removeAt)
next
  fix j
  assume "j < length (renumber 0 (removeAt i (horizontalReps ms)))"
  then have j: "j < length ms - 1"
    using assms by (simp add: length_removeAt)
  have "removeAt i (horizontalReps ms) ! j = Span (if j < i then j else Suc j) (title_of (removeAt i ms ! j))"
    using assms j by (simp add: nth_removeAt)
  then have "renumber 0 (removeAt i (horizontalReps ms)) ! j = Span (0 + j) (title_of (removeAt i ms ! j))"
    using assms j by (intro nth_renumber_span) (simp_all add: length_removeAt)
  then show "renumber 0 (removeAt i (horizontalReps ms)) ! j = horizontalReps (removeAt i ms) ! j"
    using assms j by (simp add: length_removeAt)
qed

lemma renumber_reps: "renumber 0 (horizontalReps ms) = horizontalReps ms"
proof (rule nth_equalityI)
  show "length (renumber 0 (horizontalReps ms)) = length (horizontalReps ms)"
    by simp
next
  fix j
  assume "j < length (renumber 0 (horizontalReps ms))"
  then have j: "j < length ms" by simp
  then have "renumber 0 (horizontalReps ms) ! j = Span (0 + j) (title_of (ms ! j))"
    by (intro nth_renumber_span) simp_all
  then show "renumber 0 (horizontalReps ms) ! j = horizontalReps ms ! j"
    using j by simp
qed

lemma filter_update_Empty:
  assumes "Empty \<notin> set ms" and "i < length ms"
  shows "filter (\<lambda>x. x \<noteq> Empty) (ms[i := Empty]) = removeAt i ms"
proof -
  have a: "filter (\<lambda>x. x \<noteq> Empty) (take i ms) = take i ms"
    using assms(1) by (intro filter_True) (auto dest: in_set_takeD)
  have b: "filter (\<lambda>x. x \<noteq> Empty) (drop (Suc i) ms) = drop (Suc i) ms"
    using assms(1) by (intro filter_True) (auto dest: in_set_dropD)
  show ?thesis
    using assms(2) a b by (simp add: upd_conv_take_nth_drop removeAt_def)
qed

lemma set_removeAt: "set (removeAt i xs) \<subseteq> set xs"
  by (auto simp: removeAt_def dest: in_set_takeD in_set_dropD)

lemma horizontalReps_Nil_iff [simp]: "horizontalReps ms = [] \<longleftrightarrow> ms = []"
  by (simp add: horizontalReps_def)

lemma removeAt_reps_Nil_iff:
  "i < length ms \<Longrightarrow> removeAt i (horizontalReps ms) = [] \<longleftrightarrow> length ms = 1"
proof -
  assume i: "i < length ms"
  then have "length (removeAt i (horizontalReps ms)) = length ms - 1"
    by (simp add: length_removeAt)
  then show ?thesis using i by (cases "removeAt i (horizontalReps ms)") auto
qed

lemma upt2: "[0..<2] = [0, 1]"
  by (simp add: upt_rec)

lemma upt3: "[0..<3] = [0, 1, 2]"
  by (simp add: upt_rec)

lemma upt4: "[0..<4] = [0, 1, 2, 3]"
  by (simp add: upt_rec)

lemma stripOfThree_strip: "stripMode stripOfThree"
  by (simp add: stripMode_def stripOfThree_def horizontalReps_def upt3)

lemma delete_reps:
  "i \<le> m \<Longrightarrow> m \<le> n \<Longrightarrow>
   deleteMinimizedItems i (Num m) (map (\<lambda>j. Span j (t j)) [i..<n]) =
     Inr (map (\<lambda>j. Span j (t j)) [m..<n])"
proof (induction "m - i" arbitrary: i)
  case 0
  then show ?case by (subst deleteMinimizedItems.simps) simp
next
  case (Suc d)
  then have lt: "i < m" and "i < n" by simp_all
  then have l: "[i..<n] = i # [Suc i..<n]" by (simp add: upt_conv_Cons)
  have "deleteMinimizedItems i (Num m) (map (\<lambda>j. Span j (t j)) [i..<n]) =
        deleteMinimizedItems (Suc i) (Num m) (map (\<lambda>j. Span j (t j)) [Suc i..<n])"
    using lt by (subst deleteMinimizedItems.simps) (simp add: l)
  also have "\<dots> = Inr (map (\<lambda>j. Span j (t j)) [m..<n])"
    using Suc by (intro Suc.hyps(1)) simp_all
  finally show ?case .
qed

lemma delete_horizontalReps:
  "m \<le> length ms \<Longrightarrow>
   deleteMinimizedItems 0 (Num m) (horizontalReps ms) =
     Inr (map (\<lambda>j. Span j (title_of (ms ! j))) [m..<length ms])"
  unfolding horizontalReps_def by (rule delete_reps) simp_all

lemma liveItems_full: "Empty \<notin> set ms \<Longrightarrow> liveItems ms = addDropdownItems ms"
proof -
  assume ne: "Empty \<notin> set ms"
  have "filter (\<lambda>j. ms ! j \<noteq> Empty) [0..<length ms] = [0..<length ms]"
    using ne by (intro filter_True) (auto simp: in_set_conv_nth)
  then show ?thesis by (simp add: liveItems_def addDropdownItems_def)
qed

lemma firstElementChild_nth:
  "firstElementChild cs = (if cs = [] then None else Some (cs ! 0))"
  by (cases cs) (simp_all add: firstElementChild_def)

lemma firstElementChild_reps:
  "firstElementChild (horizontalReps ms) =
     (if ms = [] then None else Some (Span 0 (title_of (ms ! 0))))"
  by (simp add: firstElementChild_nth)

lemma measure_item:
  "getItemCountToFitElementByWidth lay (Some c) st =
     (itemCapacity lay, st\<lparr>elementWidth := Some (itemOuterWidth lay)\<rparr>)"
  by (simp add: getItemCountToFitElementByWidth_def itemCapacity_def)

lemma measure_none: "getItemCountToFitElementByWidth lay None st = (Undefined, st)"
  by (simp add: getItemCountToFitElementByWidth_def)

lemma horizontalReps_snoc:
  "horizontalReps (ms @ [e]) = horizontalReps ms @ [Span (length ms) (title_of e)]"
  by (simp add: horizontalReps_def nth_append)

lemma minimize_strip:
  assumes strip: "stripMode st" and ne: "minStorage st \<noteq> []"
    and nodup: "slot_id (last (minStorage st)) \<noteq> Some (fst template)"
  shows "minimize lay template st =
     Inr (if js_gt (length (minStorage st) + 1) (itemCapacity lay)
          then st\<lparr>minStorage := minStorage st @ [Entry (fst template) (snd template)],
                  count := length (minStorage st),
                  elementWidth := Some (itemOuterWidth lay),
                  numItems := itemCapacity lay,
                  zone := map (\<lambda>j. Span j (title_of (minStorage st ! j)))
                            [(case itemCapacity lay of Num k \<Rightarrow> k | _ \<Rightarrow> 0)..<length (minStorage st)] @
                          [Btn Default, Lst Default
                             (liveItems (minStorage st @ [Entry (fst template) (snd template)]))],
                  dropdown := True,
                  hidden := insert (fst template) (hidden st)\<rparr>
          else st\<lparr>minStorage := minStorage st @ [Entry (fst template) (snd template)],
                  count := length (minStorage st),
                  elementWidth := Some (itemOuterWidth lay),
                  numItems := itemCapacity lay,
                  zone := horizontalReps (minStorage st @ [Entry (fst template) (snd template)]),
                  hidden := insert (fst template) (hidden st)\<rparr>)"
proof -
  let ?ms = "minStorage st"
  let ?e = "Entry (fst template) (snd template)"
  from strip have dd: "\<not> dropdown st" and nE: "Empty \<notin> set ?ms"
    and z: "zone st = horizontalReps ?ms"
    by (simp_all add: stripMode_def)
  have len: "0 < length ?ms" using ne by simp
  have last: "(?ms @ [?e]) ! (length ?ms - 1) = last ?ms"
    using ne by (simp add: nth_append last_conv_nth)
  have dedup: "deleteDuplicatedItemsMinStorage (storeMinimizedElement template st) =
      (False, st\<lparr>minStorage := ?ms @ [?e], count := length ?ms\<rparr>)"
    using len nodup last
    by (simp add: deleteDuplicatedItemsMinStorage_def storeMinimizedElement_def Let_def)
  have nE': "Empty \<notin> set (?ms @ [?e])" using nE by simp
  show ?thesis
  proof (cases "js_gt (length ?ms + 1) (itemCapacity lay)")
    case True
    then obtain k where k: "itemCapacity lay = Num k" and kl: "k \<le> length ?ms"
      by (cases "itemCapacity lay") simp_all
    have del: "deleteMinimizedItems 0 (Num k) (horizontalReps ?ms) =
        Inr (map (\<lambda>j. Span j (title_of (?ms ! j))) [k..<length ?ms])"
      using kl by (rule delete_horizontalReps)
    show ?thesis
      using True k dd z ne del liveItems_full [OF nE']
      by (simp add: minimize_def dedup minimizeUI_def measure_item
          firstElementChild_reps horizontalRepToDropdownList_def Let_def)
  next
    case False
    then show ?thesis
      using dd z ne
      by (simp add: minimize_def dedup minimizeUI_def measure_item
          firstElementChild_reps Let_def horizontalReps_snoc)
  qed
qed

lemma liveItems_nth:
  assumes "j < length (liveItems ms)"
  shows "fst (liveItems ms ! j) < length ms \<and> ms ! fst (liveItems ms ! j) \<noteq> Empty"
proof -
  let ?xs = "filter (\<lambda>j. ms ! j \<noteq> Empty) [0..<length ms]"
  from assms have j: "j < length ?xs" by (simp add: liveItems_def)
  then have "?xs ! j \<in> set ?xs" by (rule nth_mem)
  then have "?xs ! j < length ms \<and> ms ! (?xs ! j) \<noteq> Empty" by simp
  moreover have "fst (liveItems ms ! j) = ?xs ! j"
    using j by (simp add: liveItems_def)
  ultimately show ?thesis by simp
qed

lemma filter_not_Empty: "Empty \<notin> set (filter (\<lambda>x. x \<noteq> Empty) ms)"
  by simp

lemma maximize_dropdown_to_strip:
  assumes dm: "dropdownMode st" and j: "j < length (liveItems (minStorage st))"
    and le: "js_le (length (liveItems (minStorage st)) - 1) (numItems st)"
  shows "\<exists>st'. maximize (Item 1 j) st = Inr st' \<and> stripMode st' \<and>
           minStorage st' = filter (\<lambda>x. x \<noteq> Empty)
              ((minStorage st)[fst (liveItems (minStorage st) ! j) := Empty]) \<and>
           numItems st' = numItems st"
proof -
  let ?ms = "minStorage st"
  let ?items = "liveItems ?ms"
  let ?idx = "fst (?items ! j)"
  from dm have dd: "dropdown st" and z: "zone st = [Btn Default, Lst Default ?items]"
    by (simp_all add: dropdownMode_def)
  from liveItems_nth [OF j] have idx: "?idx < length ?ms" and live: "?ms ! ?idx \<noteq> Empty"
    by simp_all
  then obtain pane t where e: "?ms ! ?idx = Entry pane t"
    by (cases "?ms ! ?idx") auto
  let ?ms1 = "?ms[?idx := Empty]"
  let ?ms' = "filter (\<lambda>x. x \<noteq> Empty) ?ms1"
  let ?st' = "st\<lparr>zone := horizontalReps ?ms', hidden := hidden st - {pane},
                 minStorage := ?ms', dropdown := False\<rparr>"
  have len: "length (removeAt j ?items) = length ?items - 1"
    using j by (rule length_removeAt)
  have sp: "spliceLoop (length ?ms') ?ms' = ?ms'"
    by (simp only: spliceLoop_all) simp
  have m: "maximize (Item 1 j) st = Inr ?st'"
    using dd z j idx e le len sp
    by (simp add: maximize_def Let_def fromDropdownToHorizontalMinimized_def compact_all
        renumber_reps removeAt_def)
  have "stripMode ?st'"
    by (simp add: stripMode_def)
  with m show ?thesis by (intro exI [of _ ?st']) simp
qed

lemma update_strip:
  assumes strip: "stripMode st"
  shows "updateMinimizedItemsOnWindowChange lay st =
     Inr (if minStorage st = [] then st\<lparr>numItems := Undefined\<rparr>
          else if js_gt (length (minStorage st)) (itemCapacity lay)
          then st\<lparr>elementWidth := Some (itemOuterWidth lay),
                  numItems := itemCapacity lay,
                  zone := map (\<lambda>j. Span j (title_of (minStorage st ! j)))
                            [(case itemCapacity lay of Num k \<Rightarrow> k + 1 | _ \<Rightarrow> 0)..<length (minStorage st)] @
                          [Btn Default, Lst Default (liveItems (minStorage st))],
                  dropdown := True\<rparr>
          else st\<lparr>elementWidth := Some (itemOuterWidth lay), numItems := itemCapacity lay\<rparr>)"
proof -
  let ?ms = "minStorage st"
  from strip have dd: "\<not> dropdown st" and nE: "Empty \<notin> set ?ms"
    and z: "zone st = horizontalReps ?ms"
    by (simp_all add: stripMode_def)
  show ?thesis
  proof (cases "?ms = []")
    case True
    then show ?thesis using dd z
      by (simp add: updateMinimizedItemsOnWindowChange_def firstElementChild_reps measure_none Let_def)
  next
    case False
    note ne = False
    show ?thesis
    proof (cases "js_gt (length ?ms) (itemCapacity lay)")
      case True
      then obtain k where k: "itemCapacity lay = Num k" and kl: "k + 1 \<le> length ?ms"
        by (cases "itemCapacity lay") simp_all
      have del: "deleteMinimizedItems 0 (Num (k + 1)) (horizontalReps ?ms) =
          Inr (map (\<lambda>j. Span j (title_of (?ms ! j))) [k + 1..<length ?ms])"
        using kl by (rule delete_horizontalReps)
      show ?thesis
        using True k dd z ne del liveItems_full [OF nE]
        by (simp add: updateMinimizedItemsOnWindowChange_def measure_item
            firstElementChild_reps horizontalRepToDropdownList_def Let_def)
    next
      case False
      then show ?thesis
        using dd z ne
        by (simp add: updateMinimizedItemsOnWindowChange_def measure_item
            firstElementChild_reps Let_def)
    qed
  qed
qed

subsection \<open>The modes are kept\<close>

text \<open>
  A duplicate of the last entry is dropped; minimizing in dropdown mode adds an item to
  the list; restoring an item while more remain than fit keeps the dropdown.
\<close>

lemma minimize_duplicate:
  assumes "minStorage st \<noteq> []" and "slot_id (last (minStorage st)) = Some (fst template)"
  shows "minimize lay template st = Inr (st\<lparr>count := length (minStorage st)\<rparr>)"
proof -
  have "(minStorage st @ [Entry (fst template) (snd template)]) ! (length (minStorage st) - 1) =
      last (minStorage st)"
    using assms(1) by (simp add: nth_append last_conv_nth)
  then show ?thesis
    using assms
    by (simp add: minimize_def storeMinimizedElement_def deleteDuplicatedItemsMinStorage_def
        Let_def)
qed

lemma liveItems_snoc:
  "liveItems (ms @ [Entry i t]) = liveItems ms @ [(length ms, t)]"
proof -
  have "filter (\<lambda>j. (ms @ [Entry i t]) ! j \<noteq> Empty) [0..<length ms] =
        filter (\<lambda>j. ms ! j \<noteq> Empty) [0..<length ms]"
    by (intro filter_cong) (simp_all add: nth_append)
  moreover have "map (\<lambda>j. (j, title_of ((ms @ [Entry i t]) ! j))) (filter (\<lambda>j. ms ! j \<noteq> Empty) [0..<length ms]) =
        map (\<lambda>j. (j, title_of (ms ! j))) (filter (\<lambda>j. ms ! j \<noteq> Empty) [0..<length ms])"
    by (intro map_cong) (simp_all add: nth_append)
  ultimately show ?thesis by (simp add: liveItems_def)
qed

lemma minimize_dropdown:
  assumes dm: "dropdownMode st"
    and nodup: "minStorage st = [] \<or> slot_id (last (minStorage st)) \<noteq> Some (fst template)"
  shows "\<exists>st'. minimize lay template st = Inr st' \<and> dropdownMode st' \<and>
           minStorage st' = minStorage st @ [Entry (fst template) (snd template)] \<and>
           numItems st' = numItems st"
proof -
  let ?ms = "minStorage st"
  let ?e = "Entry (fst template) (snd template)"
  from dm have dd: "dropdown st" and z: "zone st = [Btn Default, Lst Default (liveItems ?ms)]"
    by (simp_all add: dropdownMode_def)
  have dedup: "deleteDuplicatedItemsMinStorage (storeMinimizedElement template st) =
      (False, st\<lparr>minStorage := ?ms @ [?e], count := length ?ms\<rparr>)"
  proof (cases "?ms = []")
    case True
    then show ?thesis
      by (simp add: deleteDuplicatedItemsMinStorage_def storeMinimizedElement_def Let_def)
  next
    case False
    then have "(?ms @ [?e]) ! (length ?ms - 1) = last ?ms"
      by (simp add: nth_append last_conv_nth)
    then show ?thesis
      using False nodup
      by (simp add: deleteDuplicatedItemsMinStorage_def storeMinimizedElement_def Let_def)
  qed
  show ?thesis
    using dd z
    by (simp add: minimize_def dedup minimizeUI_def Let_def dropdownMode_def liveItems_snoc)
qed

lemma filter_neq_nth:
  assumes "distinct ys" and "j < length ys"
  shows "filter (\<lambda>x. x \<noteq> ys ! j) ys = removeAt j ys"
proof -
  have ys: "ys = take j ys @ ys ! j # drop (Suc j) ys"
    using assms(2) by (rule id_take_nth_drop)
  then have d: "distinct (take j ys @ ys ! j # drop (Suc j) ys)"
    using assms(1) by simp
  have a: "filter (\<lambda>x. x \<noteq> ys ! j) (take j ys) = take j ys"
    using d by (intro filter_True) auto
  have b: "filter (\<lambda>x. x \<noteq> ys ! j) (drop (Suc j) ys) = drop (Suc j) ys"
    using d by (intro filter_True) auto
  have "filter (\<lambda>x. x \<noteq> ys ! j) ys =
      filter (\<lambda>x. x \<noteq> ys ! j) (take j ys @ ys ! j # drop (Suc j) ys)"
    using ys by simp
  also have "\<dots> = take j ys @ drop (Suc j) ys"
    using a b by simp
  finally show ?thesis by (simp add: removeAt_def)
qed

lemma liveItems_update:
  assumes j: "j < length (liveItems ms)"
  shows "liveItems (ms[fst (liveItems ms ! j) := Empty]) = removeAt j (liveItems ms)"
proof -
  let ?ys = "filter (\<lambda>i. ms ! i \<noteq> Empty) [0..<length ms]"
  from j have jy: "j < length ?ys" by (simp add: liveItems_def)
  then have idx: "fst (liveItems ms ! j) = ?ys ! j" by (simp add: liveItems_def)
  let ?idx = "?ys ! j"
  have "?idx \<in> set ?ys" using jy by (rule nth_mem)
  then have il: "?idx < length ms" by simp
  have "filter (\<lambda>i. ms[?idx := Empty] ! i \<noteq> Empty) [0..<length ms] =
        filter (\<lambda>i. i \<noteq> ?idx \<and> ms ! i \<noteq> Empty) [0..<length ms]"
    using il by (intro filter_cong) (auto simp: nth_list_update)
  also have "\<dots> = filter (\<lambda>i. i \<noteq> ?idx) ?ys"
    by (simp add: conj_commute)
  also have "\<dots> = removeAt j ?ys"
    using jy by (intro filter_neq_nth) simp_all
  finally have f: "filter (\<lambda>i. ms[?idx := Empty] ! i \<noteq> Empty) [0..<length ms] = removeAt j ?ys" .
  have notin: "?idx \<notin> set (removeAt j ?ys)"
  proof -
    have "removeAt j ?ys = filter (\<lambda>i. i \<noteq> ?idx) ?ys"
      using jy by (intro filter_neq_nth [symmetric]) simp_all
    then show ?thesis by simp
  qed
  have m: "map (\<lambda>i. (i, title_of (ms[?idx := Empty] ! i))) (removeAt j ?ys) =
        map (\<lambda>i. (i, title_of (ms ! i))) (removeAt j ?ys)"
    using notin il by (intro map_cong) (auto simp: nth_list_update)
  have "liveItems (ms[?idx := Empty]) =
        map (\<lambda>i. (i, title_of (ms[?idx := Empty] ! i)))
          (filter (\<lambda>i. ms[?idx := Empty] ! i \<noteq> Empty) [0..<length ms])"
    by (simp add: liveItems_def)
  also have "\<dots> = map (\<lambda>i. (i, title_of (ms ! i))) (removeAt j ?ys)"
    by (simp only: f m)
  also have "\<dots> = removeAt j (liveItems ms)"
    by (simp add: liveItems_def removeAt_def take_map drop_map)
  finally have "liveItems (ms[?idx := Empty]) = removeAt j (liveItems ms)" .
  then show ?thesis by (simp only: idx)
qed

lemma maximize_dropdown_stays:
  assumes dm: "dropdownMode st" and j: "j < length (liveItems (minStorage st))"
    and gt: "\<not> js_le (length (liveItems (minStorage st)) - 1) (numItems st)"
  shows "\<exists>st'. maximize (Item 1 j) st = Inr st' \<and> dropdownMode st' \<and>
           minStorage st' = (minStorage st)[fst (liveItems (minStorage st) ! j) := Empty] \<and>
           numItems st' = numItems st"
proof -
  let ?ms = "minStorage st"
  let ?items = "liveItems ?ms"
  let ?idx = "fst (?items ! j)"
  from dm have dd: "dropdown st" and z: "zone st = [Btn Default, Lst Default ?items]"
    by (simp_all add: dropdownMode_def)
  from liveItems_nth [OF j] have idx: "?idx < length ?ms" and live: "?ms ! ?idx \<noteq> Empty"
    by simp_all
  then obtain pane t where e: "?ms ! ?idx = Entry pane t"
    by (cases "?ms ! ?idx") auto
  have len: "length (removeAt j ?items) = length ?items - 1"
    using j by (rule length_removeAt)
  show ?thesis
    using dd z j idx e gt len liveItems_update [OF j]
    by (simp add: maximize_def Let_def dropdownMode_def)
qed

subsection \<open>Restoring a pane from a strip that holds one representation per entry\<close>

text \<open>
  In strip mode with \<open>n\<close> entries, a click on the representation at index \<open>i\<close>
  succeeds and leaves the registry with entry \<open>i\<close> removed and the others in their
  order: \<open>n - 1\<close> slots, none of them empty. The zone then holds \<open>n - 1\<close>
  representations with the ids \<open>0, \<dots>, n - 2\<close> in this order, the one with id \<open>j\<close>
  showing the title of entry \<open>j\<close> of the new registry; this is strip mode again.
\<close>

lemma strip_restore_reindexes:
  assumes strip: "stripMode st" and i: "i < length (minStorage st)"
  shows "\<exists>st'. maximize (Rep i) st = Inr st' \<and>
           minStorage st' = removeAt i (minStorage st) \<and>
           length (minStorage st') = length (minStorage st) - 1 \<and>
           Empty \<notin> set (minStorage st') \<and>
           zone st' = map (\<lambda>j. Span j (title_of (minStorage st' ! j))) [0..<length (minStorage st) - 1] \<and>
           stripMode st'"
proof -
  let ?ms = "minStorage st"
  from strip have dd: "\<not> dropdown st" and ne: "Empty \<notin> set ?ms"
    and z: "zone st = horizontalReps ?ms"
    by (simp_all add: stripMode_def)
  from ne i obtain pane t where e: "?ms ! i = Entry pane t"
    by (cases "?ms ! i") (auto simp: in_set_conv_nth)
  let ?st1 = "st\<lparr>zone := removeAt i (zone st), hidden := hidden st - {pane},
                  minStorage := ?ms[i := Empty]\<rparr>"
  let ?st' = "if length ?ms = 1 then ?st1\<lparr>minStorage := []\<rparr>
              else ?st1\<lparr>zone := renumber 0 (zone ?st1),
                        minStorage := spliceLoop (length (minStorage ?st1)) (minStorage ?st1)\<rparr>"
  have m: "maximize (Rep i) st = Inr ?st'"
    using i dd e z by (simp add: maximize_def Let_def removeAt_reps_Nil_iff)
  have ms': "minStorage ?st' = removeAt i ?ms"
  proof (cases "length ?ms = 1")
    case True
    then show ?thesis using i by (simp add: removeAt_def)
  next
    case False
    have "spliceLoop (length ?ms) (?ms[i := Empty]) = filter (\<lambda>x. x \<noteq> Empty) (?ms[i := Empty])"
      using spliceLoop_all [of "?ms[i := Empty]"] by simp
    then show ?thesis using False i ne by (simp add: filter_update_Empty)
  qed
  have z': "zone ?st' = horizontalReps (removeAt i ?ms)"
  proof (cases "length ?ms = 1")
    case True
    then have "removeAt i (horizontalReps ?ms) = []" using i by (simp add: removeAt_reps_Nil_iff)
    moreover have "removeAt i ?ms = []" using True i by (simp add: removeAt_def)
    ultimately show ?thesis using True z by (simp add: horizontalReps_def)
  next
    case False
    then show ?thesis using i z by (simp add: renumber_removeAt_reps)
  qed
  have dd': "\<not> dropdown ?st'" using dd by simp
  have ne': "Empty \<notin> set (removeAt i ?ms)" using ne set_removeAt [of i ?ms] by auto
  have len: "length (removeAt i ?ms) = length ?ms - 1" using i by (rule length_removeAt)
  show ?thesis
    using m ms' z' dd' ne' len
    by (intro exI [of _ ?st']) (simp add: stripMode_def horizontalReps_def)
qed

text \<open>
  Restoring \<open>b\<close> from the strip of \<open>a\<close>, \<open>b\<close> and \<open>c\<close>: the registry is \<open>a\<close>, \<open>c\<close>
  and the representations are renumbered 0 and 1.
\<close>

lemma strip_restore_reindexes_example:
  "maximize (Rep 1) stripOfThree =
     Inr \<lparr>minStorage = [Entry ''a'' ''A'', Entry ''c'' ''C''], count = 2, dropdown = False,
          numItems = Num 3, elementWidth = Some 100, zone = [Span 0 ''A'', Span 1 ''C''],
          hidden = {''a'', ''c''}\<rparr>"
  by (simp add: maximize_def stripOfThree_def removeAt_def Let_def insert_Diff_if)

subsection \<open>The states met while the capacity stays the same\<close>

text \<open>
  Strip mode and dropdown mode as defined above are the only states the registry is in
  as long as panes are minimized and restored at one capacity \<open>k \<ge> 1\<close>: no handler
  throws, and every state is strip mode with at most \<open>k\<close> entries or dropdown mode with
  more than \<open>k\<close> items.
\<close>

lemma length_liveItems: "length (liveItems ms) = length (filter (\<lambda>x. x \<noteq> Empty) ms)"
proof -
  have "filter (\<lambda>x. x \<noteq> Empty) ms = filter (\<lambda>x. x \<noteq> Empty) (map (nth ms) [0..<length ms])"
    by (simp add: map_nth)
  also have "\<dots> = map (nth ms) (filter (\<lambda>j. ms ! j \<noteq> Empty) [0..<length ms])"
    by (simp add: filter_map comp_def)
  finally show ?thesis by (simp add: liveItems_def)
qed

lemma length_liveItems_full: "Empty \<notin> set ms \<Longrightarrow> length (liveItems ms) = length ms"
  by (simp add: liveItems_full addDropdownItems_def)

lemma minimize_first:
  assumes strip: "stripMode st" and e: "minStorage st = []"
  shows "minimize lay template st =
     Inr (st\<lparr>minStorage := [Entry (fst template) (snd template)], count := 0,
             numItems := Undefined, zone := [Span 0 (snd template)],
             hidden := insert (fst template) (hidden st)\<rparr>)"
proof -
  from strip e have dd: "\<not> dropdown st" and z: "zone st = []"
    by (simp_all add: stripMode_def horizontalReps_def)
  show ?thesis
    using dd z e
    by (simp add: minimize_def storeMinimizedElement_def deleteDuplicatedItemsMinStorage_def
        minimizeUI_def firstElementChild_def measure_none Let_def)
qed

lemma wellFormed_initialState: "wellFormed k initialState"
  by (simp add: wellFormed_def stripMode_def initialState_def horizontalReps_def)

lemma wellFormed_count: "wellFormed k (st\<lparr>count := c\<rparr>) = wellFormed k st"
  by (simp add: wellFormed_def stripMode_def dropdownMode_def)

lemma wellFormed_minimize:
  assumes cap: "itemCapacity lay = Num k" and k: "1 \<le> k" and wf: "wellFormed k st"
  shows "\<exists>st'. minimize lay template st = Inr st' \<and> wellFormed k st'"
proof (cases "minStorage st \<noteq> [] \<and> slot_id (last (minStorage st)) = Some (fst template)")
  case True
  then have "minimize lay template st = Inr (st\<lparr>count := length (minStorage st)\<rparr>)"
    by (simp add: minimize_duplicate)
  with wf show ?thesis by (simp add: wellFormed_count)
next
  case False
  note nodup = False
  from wf consider
    (strip) "stripMode st" "length (minStorage st) \<le> k"
    | (dd) "dropdownMode st" "numItems st = Num k" "k < length (liveItems (minStorage st))"
    by (auto simp: wellFormed_def)
  then show ?thesis
  proof cases
    case strip
    show ?thesis
    proof (cases "minStorage st = []")
      case True
      have "stripMode (st\<lparr>minStorage := [Entry (fst template) (snd template)], count := 0,
             numItems := Undefined, zone := [Span 0 (snd template)],
             hidden := insert (fst template) (hidden st)\<rparr>)"
        using strip(1) by (simp add: stripMode_def horizontalReps_def)
      then show ?thesis
        using k by (simp add: minimize_first [OF strip(1) True] wellFormed_def)
    next
      case False
      with nodup have nd: "slot_id (last (minStorage st)) \<noteq> Some (fst template)"
        by simp
      from strip(1) have nE: "Empty \<notin> set (minStorage st)" and dd: "\<not> dropdown st"
        by (simp_all add: stripMode_def)
      have full: "length (liveItems (minStorage st @ [Entry (fst template) (snd template)])) =
          length (minStorage st) + 1"
        using nE by (simp add: length_liveItems_full)
      show ?thesis
      proof (cases "length (minStorage st) = k")
        case True
        then show ?thesis
          using cap full nE
          by (simp add: minimize_strip [OF strip(1) False nd] wellFormed_def dropdownMode_def)
      next
        case False
        with strip(2) have "length (minStorage st) < k" by simp
        then show ?thesis
          using cap nE dd
          by (simp add: minimize_strip [OF strip(1) \<open>minStorage st \<noteq> []\<close> nd] wellFormed_def
              stripMode_def)
      qed
    qed
  next
    case dd
    from nodup have "minStorage st = [] \<or> slot_id (last (minStorage st)) \<noteq> Some (fst template)"
      by auto
    from minimize_dropdown [OF dd(1) this, of lay] obtain st' where
      m: "minimize lay template st = Inr st'" and d': "dropdownMode st'"
      and ms': "minStorage st' = minStorage st @ [Entry (fst template) (snd template)]"
      and n': "numItems st' = numItems st"
      by blast
    have "k < length (liveItems (minStorage st'))"
      using dd(3) by (simp add: ms' liveItems_snoc)
    with m d' n' dd(2) show ?thesis by (simp add: wellFormed_def)
  qed
qed

lemma maximize_strip_no_target:
  assumes strip: "stripMode st" and no: "\<forall>i. this = Rep i \<longrightarrow> \<not> i < length (minStorage st)"
  shows "maximize this st = Inl NoSuchTarget"
proof -
  from strip have z: "zone st = horizontalReps (minStorage st)"
    by (simp add: stripMode_def)
  show ?thesis
  proof (cases this)
    case (Rep i)
    with no have "\<not> i < length (zone st)" by (simp add: z)
    then show ?thesis by (simp add: Rep maximize_def)
  next
    case (Item k j)
    show ?thesis
      by (simp add: Item maximize_def z)
  qed
qed

lemma maximize_dropdown_no_target:
  assumes dm: "dropdownMode st"
    and no: "\<forall>j. this = Item 1 j \<longrightarrow> \<not> j < length (liveItems (minStorage st))"
  shows "maximize this st = Inl NoSuchTarget"
proof -
  from dm have z: "zone st = [Btn Default, Lst Default (liveItems (minStorage st))]"
    by (simp add: dropdownMode_def)
  show ?thesis
  proof (cases this)
    case (Rep i)
    then show ?thesis
      by (cases i rule: nat.exhaust; cases "i - 1" rule: nat.exhaust)
         (simp_all add: maximize_def z)
  next
    case (Item k j)
    show ?thesis
    proof (cases "k = 1")
      case True
      with no Item have "\<not> j < length (liveItems (minStorage st))" by simp
      then show ?thesis by (simp add: Item True maximize_def z)
    next
      case False
      then show ?thesis
        by (cases k rule: nat.exhaust) (simp_all add: Item maximize_def z)
    qed
  qed
qed

lemma wellFormed_maximize:
  assumes wf: "wellFormed k st" and m: "maximize this st = Inr st'"
  shows "wellFormed k st'"
proof -
  from wf consider
    (strip) "stripMode st" "length (minStorage st) \<le> k"
    | (dd) "dropdownMode st" "numItems st = Num k" "k < length (liveItems (minStorage st))"
    by (auto simp: wellFormed_def)
  then show ?thesis
  proof cases
    case strip
    from m maximize_strip_no_target [OF strip(1), of this]
    obtain i where t: "this = Rep i" and i: "i < length (minStorage st)"
      by auto
    from strip_restore_reindexes [OF strip(1) i] m t strip(2)
    show ?thesis by (auto simp: wellFormed_def)
  next
    case dd
    from m maximize_dropdown_no_target [OF dd(1), of this]
    obtain j where t: "this = Item 1 j" and j: "j < length (liveItems (minStorage st))"
      by auto
    let ?n = "length (liveItems (minStorage st))"
    show ?thesis
    proof (cases "?n - 1 \<le> k")
      case True
      then have "js_le (?n - 1) (numItems st)" by (simp add: dd(2))
      from maximize_dropdown_to_strip [OF dd(1) j this] m t
      have s: "stripMode st'" and ms: "minStorage st' = filter (\<lambda>x. x \<noteq> Empty)
              ((minStorage st)[fst (liveItems (minStorage st) ! j) := Empty])"
        by auto
      have "length (minStorage st') =
          length (liveItems ((minStorage st)[fst (liveItems (minStorage st) ! j) := Empty]))"
        by (simp add: ms length_liveItems)
      also have "\<dots> = ?n - 1"
        using j by (simp add: liveItems_update length_removeAt)
      finally show ?thesis using s True by (simp add: wellFormed_def)
    next
      case False
      then have "\<not> js_le (?n - 1) (numItems st)" by (simp add: dd(2))
      from maximize_dropdown_stays [OF dd(1) j this] m t
      have d: "dropdownMode st'"
        and ms: "minStorage st' = (minStorage st)[fst (liveItems (minStorage st) ! j) := Empty]"
        and n: "numItems st' = numItems st"
        by auto
      have "length (liveItems (minStorage st')) = ?n - 1"
        using j by (simp add: ms liveItems_update length_removeAt)
      with d n dd(2) False show ?thesis by (simp add: wellFormed_def)
    qed
  qed
qed

lemma wellFormed_handleEvent:
  assumes "itemCapacity lay = Num k" and "1 \<le> k" and "wellFormed k st"
    and "handleEvent lay e st = Inr st'"
  shows "wellFormed k st'"
proof (cases e)
  case (Minimize template)
  with wellFormed_minimize [OF assms(1,2,3), of template] assms(4) show ?thesis by auto
next
  case (Click this)
  with assms(3,4) show ?thesis by (auto intro: wellFormed_maximize)
qed

lemma wellFormed_runEvents:
  assumes "itemCapacity lay = Num k" and "1 \<le> k"
  shows "wellFormed k st \<Longrightarrow> runEvents lay es st = Inr st' \<Longrightarrow> wellFormed k st'"
proof (induction es arbitrary: st)
  case Nil
  then show ?case by simp
next
  case (Cons e es)
  from Cons.prems(2) obtain st1 where h: "handleEvent lay e st = Inr st1"
    and r: "runEvents lay es st1 = Inr st'"
    by (auto split: sum.splits)
  from wellFormed_handleEvent [OF assms Cons.prems(1) h] have "wellFormed k st1" .
  from Cons.IH [OF this r] show ?case .
qed

text \<open>
  Minimizing never throws in these states, and a click throws only when there is no such
  representation to click.
\<close>

lemma wellFormed_no_exception:
  assumes "itemCapacity lay = Num k" and "1 \<le> k" and "wellFormed k st"
  shows "(\<exists>st'. handleEvent lay e st = Inr st') \<or> handleEvent lay e st = Inl NoSuchTarget"
proof (cases e)
  case (Minimize template)
  with wellFormed_minimize [OF assms, of template] show ?thesis by auto
next
  case (Click this)
  from assms(3) consider
    (strip) "stripMode st" | (dd) "dropdownMode st" "numItems st = Num k"
    by (auto simp: wellFormed_def)
  then show ?thesis
  proof cases
    case strip
    show ?thesis
    proof (cases "\<exists>i. this = Rep i \<and> i < length (minStorage st)")
      case True
      with strip_restore_reindexes [OF strip] show ?thesis by (auto simp: Click)
    next
      case False
      then have "maximize this st = Inl NoSuchTarget"
        by (intro maximize_strip_no_target [OF strip]) auto
      then show ?thesis by (simp add: Click)
    qed
  next
    case dd
    show ?thesis
    proof (cases "\<exists>j. this = Item 1 j \<and> j < length (liveItems (minStorage st))")
      case True
      then obtain j where t: "this = Item 1 j" and j: "j < length (liveItems (minStorage st))"
        by auto
      show ?thesis
      proof (cases "js_le (length (liveItems (minStorage st)) - 1) (numItems st)")
        case True
        from maximize_dropdown_to_strip [OF dd(1) j True] show ?thesis by (auto simp: Click t)
      next
        case False
        from maximize_dropdown_stays [OF dd(1) j False] show ?thesis by (auto simp: Click t)
      qed
    next
      case False
      then have "maximize this st = Inl NoSuchTarget"
        by (intro maximize_dropdown_no_target [OF dd(1)]) auto
      then show ?thesis by (simp add: Click)
    qed
  qed
qed

subsection \<open>An example state\<close>

lemma stripOfThree_reached:
  "(case minimize \<lparr>areaClientWidth = 300, itemOuterWidth = 100\<rparr> (''a'', ''A'') initialState of
      Inl e \<Rightarrow> Inl e
    | Inr s1 \<Rightarrow>
        (case minimize \<lparr>areaClientWidth = 300, itemOuterWidth = 100\<rparr> (''b'', ''B'') s1 of
           Inl e \<Rightarrow> Inl e
         | Inr s2 \<Rightarrow> minimize \<lparr>areaClientWidth = 300, itemOuterWidth = 100\<rparr> (''c'', ''C'') s2)) =
   Inr stripOfThree"
  by (simp add: minimize_def storeMinimizedElement_def deleteDuplicatedItemsMinStorage_def
      minimizeUI_def getItemCountToFitElementByWidth_def firstElementChild_def Let_def
      initialState_def stripOfThree_def insert_commute)

lemma stripOfThree_run:
  "runEvents \<lparr>areaClientWidth = 300, itemOuterWidth = 100\<rparr>
     [Minimize (''a'', ''A''), Minimize (''b'', ''B''), Minimize (''c'', ''C'')] initialState =
   Inr stripOfThree"
  by (simp add: minimize_def storeMinimizedElement_def deleteDuplicatedItemsMinStorage_def
      minimizeUI_def getItemCountToFitElementByWidth_def firstElementChild_def Let_def
      initialState_def stripOfThree_def insert_commute)

lemma cap150: "itemCapacity \<lparr>areaClientWidth = 150, itemOuterWidth = 100\<rparr> = Num 1"
  by (simp add: itemCapacity_def)

lemma cap250: "itemCapacity \<lparr>areaClientWidth = 250, itemOuterWidth = 100\<rparr> = Num 2"
  by (simp add: itemCapacity_def)

lemma cap300: "itemCapacity \<lparr>areaClientWidth = 300, itemOuterWidth = 100\<rparr> = Num 3"
  by (simp add: itemCapacity_def)

lemma live3: "liveItems [Entry ''a'' ''A'', Entry ''b'' ''B'', Entry ''c'' ''C'']
   = [(0, ''A''), (1, ''B''), (2, ''C'')]"
  by (simp add: liveItems_def upt3)

lemma live4: "liveItems [Entry ''a'' ''A'', Entry ''b'' ''B'', Entry ''c'' ''C'', Entry ''d'' ''D'']
   = [(0, ''A''), (1, ''B''), (2, ''C''), (3, ''D'')]"
  by (simp add: liveItems_def upt4)

subsection \<open>Restoring a pane in strip mode\<close>

text \<open>
  Claim C7 fails on the code once the window has been resized twice. Three panes are in
  the strip, into a zone 300px wide with items 100px wide. The window is made narrower,
  the zone 150px wide, so that one item fits: the resize handler switches to the
  dropdown, but it deletes \<^verbatim>\<open>numItems + 1\<close> \<open>= 2\<close> of the three representations, and the
  representation of \<open>c\<close> stays, in front of the button. The window is made wide again,
  the zone 300px: three items fit, and the handler passes the zone's second child, the
  button, as the list; the stale representation and the button are removed and the list
  stays, in front of the three new representations. This is strip mode (\<^verbatim>\<open>dropdown\<close> is
  \<^verbatim>\<open>undefined\<close>) with the registry \<open>a\<close>, \<open>b\<close>, \<open>c\<close>. A click on the representation of
  \<open>b\<close> restores \<open>b\<close>; the renumbering loop gives the id 0 to the list and the ids 1
  and 2 to the representations of \<open>a\<close> and \<open>c\<close>, while the registry holds \<open>a\<close> at
  index 0 and \<open>c\<close> at index 1. The remaining entries carry the ids 1 and 2, not 0 and
  1, and a click on the representation of \<open>a\<close> restores pane \<open>c\<close>.
\<close>

theorem strip_restore_after_window_resizes:
  "updateMinimizedItemsOnWindowChange \<lparr>areaClientWidth = 150, itemOuterWidth = 100\<rparr> stripOfThree =
     Inr \<lparr>minStorage = [Entry ''a'' ''A'', Entry ''b'' ''B'', Entry ''c'' ''C''], count = 2,
          dropdown = True, numItems = Num 1, elementWidth = Some 100,
          zone = [Span 2 ''C'', Btn Default, Lst Default [(0, ''A''), (1, ''B''), (2, ''C'')]],
          hidden = {''a'', ''b'', ''c''}\<rparr> \<and>
   updateMinimizedItemsOnWindowChange \<lparr>areaClientWidth = 300, itemOuterWidth = 100\<rparr>
     \<lparr>minStorage = [Entry ''a'' ''A'', Entry ''b'' ''B'', Entry ''c'' ''C''], count = 2,
      dropdown = True, numItems = Num 1, elementWidth = Some 100,
      zone = [Span 2 ''C'', Btn Default, Lst Default [(0, ''A''), (1, ''B''), (2, ''C'')]],
      hidden = {''a'', ''b'', ''c''}\<rparr> =
     Inr \<lparr>minStorage = [Entry ''a'' ''A'', Entry ''b'' ''B'', Entry ''c'' ''C''], count = 2,
          dropdown = False, numItems = Num 3, elementWidth = Some 100,
          zone = [Lst Default [(0, ''A''), (1, ''B''), (2, ''C'')],
                  Span 0 ''A'', Span 1 ''B'', Span 2 ''C''],
          hidden = {''a'', ''b'', ''c''}\<rparr> \<and>
   maximize (Rep 2)
     \<lparr>minStorage = [Entry ''a'' ''A'', Entry ''b'' ''B'', Entry ''c'' ''C''], count = 2,
      dropdown = False, numItems = Num 3, elementWidth = Some 100,
      zone = [Lst Default [(0, ''A''), (1, ''B''), (2, ''C'')],
              Span 0 ''A'', Span 1 ''B'', Span 2 ''C''],
      hidden = {''a'', ''b'', ''c''}\<rparr> =
     Inr \<lparr>minStorage = [Entry ''a'' ''A'', Entry ''c'' ''C''], count = 2,
          dropdown = False, numItems = Num 3, elementWidth = Some 100,
          zone = [Lst (Renumbered 0) [(0, ''A''), (1, ''B''), (2, ''C'')],
                  Span 1 ''A'', Span 2 ''C''],
          hidden = {''a'', ''c''}\<rparr> \<and>
   maximize (Rep 1)
     \<lparr>minStorage = [Entry ''a'' ''A'', Entry ''c'' ''C''], count = 2,
      dropdown = False, numItems = Num 3, elementWidth = Some 100,
      zone = [Lst (Renumbered 0) [(0, ''A''), (1, ''B''), (2, ''C'')],
              Span 1 ''A'', Span 2 ''C''],
      hidden = {''a'', ''c''}\<rparr> =
     Inr \<lparr>minStorage = [Entry ''a'' ''A''], count = 2,
          dropdown = False, numItems = Num 3, elementWidth = Some 100,
          zone = [Lst (Renumbered 0) [(0, ''A''), (1, ''B''), (2, ''C'')], Span 1 ''C''],
          hidden = {''a''}\<rparr>"
proof -
  have shrink: "updateMinimizedItemsOnWindowChange
       \<lparr>areaClientWidth = 150, itemOuterWidth = 100\<rparr> stripOfThree =
     Inr \<lparr>minStorage = [Entry ''a'' ''A'', Entry ''b'' ''B'', Entry ''c'' ''C''], count = 2,
          dropdown = True, numItems = Num 1, elementWidth = Some 100,
          zone = [Span 2 ''C'', Btn Default, Lst Default [(0, ''A''), (1, ''B''), (2, ''C'')]],
          hidden = {''a'', ''b'', ''c''}\<rparr>"
    by (simp add: cap150 update_strip [OF stripOfThree_strip])
       (simp add: stripOfThree_def live3 upt_rec)
  have grow: "updateMinimizedItemsOnWindowChange \<lparr>areaClientWidth = 300, itemOuterWidth = 100\<rparr>
     \<lparr>minStorage = [Entry ''a'' ''A'', Entry ''b'' ''B'', Entry ''c'' ''C''], count = 2,
      dropdown = True, numItems = Num 1, elementWidth = Some 100,
      zone = [Span 2 ''C'', Btn Default, Lst Default [(0, ''A''), (1, ''B''), (2, ''C'')]],
      hidden = {''a'', ''b'', ''c''}\<rparr> =
     Inr \<lparr>minStorage = [Entry ''a'' ''A'', Entry ''b'' ''B'', Entry ''c'' ''C''], count = 2,
          dropdown = False, numItems = Num 3, elementWidth = Some 100,
          zone = [Lst Default [(0, ''A''), (1, ''B''), (2, ''C'')],
                  Span 0 ''A'', Span 1 ''B'', Span 2 ''C''],
          hidden = {''a'', ''b'', ''c''}\<rparr>"
    by (simp add: updateMinimizedItemsOnWindowChange_def Let_def
        fromDropdownToHorizontalMinimized_def compact_all removeAt_def horizontalReps_def upt3)
  have b: "maximize (Rep 2)
     \<lparr>minStorage = [Entry ''a'' ''A'', Entry ''b'' ''B'', Entry ''c'' ''C''], count = 2,
      dropdown = False, numItems = Num 3, elementWidth = Some 100,
      zone = [Lst Default [(0, ''A''), (1, ''B''), (2, ''C'')],
              Span 0 ''A'', Span 1 ''B'', Span 2 ''C''],
      hidden = {''a'', ''b'', ''c''}\<rparr> =
     Inr \<lparr>minStorage = [Entry ''a'' ''A'', Entry ''c'' ''C''], count = 2,
          dropdown = False, numItems = Num 3, elementWidth = Some 100,
          zone = [Lst (Renumbered 0) [(0, ''A''), (1, ''B''), (2, ''C'')],
                  Span 1 ''A'', Span 2 ''C''],
          hidden = {''a'', ''c''}\<rparr>"
    by (simp add: maximize_def Let_def removeAt_def insert_Diff_if)
  have a: "maximize (Rep 1)
     \<lparr>minStorage = [Entry ''a'' ''A'', Entry ''c'' ''C''], count = 2,
      dropdown = False, numItems = Num 3, elementWidth = Some 100,
      zone = [Lst (Renumbered 0) [(0, ''A''), (1, ''B''), (2, ''C'')],
              Span 1 ''A'', Span 2 ''C''],
      hidden = {''a'', ''c''}\<rparr> =
     Inr \<lparr>minStorage = [Entry ''a'' ''A''], count = 2,
          dropdown = False, numItems = Num 3, elementWidth = Some 100,
          zone = [Lst (Renumbered 0) [(0, ''A''), (1, ''B''), (2, ''C'')], Span 1 ''C''],
          hidden = {''a''}\<rparr>"
    by (simp add: maximize_def Let_def removeAt_def insert_Diff_if)
  from shrink grow b a show ?thesis by (simp only: simp_thms)
qed

subsection \<open>The boundary between strip and dropdown\<close>

text \<open>
  Claim C8, amended. Let the capacity of the zone be \<open>k\<close>.
  \<^item> With \<open>k \<ge> 1\<close>, in strip mode with \<open>k\<close> entries, where the registry has no empty
    slot and the zone holds exactly one representation per entry, with the ids
    \<open>0, \<dots>, k - 1\<close> in the order of the registry: minimizing a further pane (one that
    is not a duplicate of the last entry) succeeds and ends in dropdown mode: the strip
    representations are gone, the zone holds the button and the list, and the list has
    one item per entry of the registry, the new entry included, in order.
  \<^item> In dropdown mode with \<^verbatim>\<open>numItems\<close> \<open>= k\<close>, where the zone holds the button and the
    list and nothing else and the list holds one item per slot that is not empty:
    restoring an item such that at most \<open>k\<close> items remain succeeds and ends in strip
    mode: the registry is compacted (the empty slots are dropped, the order kept) and
    the zone holds one representation per entry of the compacted registry, numbered
    from 0.

  These are the strip and dropdown states met while panes are minimized and restored at
  one capacity \<open>k \<ge> 1\<close> (\<open>wellFormed_runEvents\<close>). What the handlers do in a zone that
  holds a representation left behind by a window resize is not part of the statement.
\<close>

theorem mode_boundary:
  assumes cap: "itemCapacity lay = Num k"
  shows "(1 \<le> k \<and> stripMode st1 \<and> length (minStorage st1) = k \<and>
          slot_id (last (minStorage st1)) \<noteq> Some (fst template) \<longrightarrow>
          (\<exists>st'. minimize lay template st1 = Inr st' \<and> dropdownMode st' \<and> numItems st' = Num k \<and>
                 minStorage st' = minStorage st1 @ [Entry (fst template) (snd template)])) \<and>
         (dropdownMode st2 \<and> numItems st2 = Num k \<and> j < length (liveItems (minStorage st2)) \<and>
          length (liveItems (minStorage st2)) - 1 \<le> k \<longrightarrow>
          (\<exists>st'. maximize (Item 1 j) st2 = Inr st' \<and> stripMode st' \<and>
                 minStorage st' = filter (\<lambda>x. x \<noteq> Empty)
                    ((minStorage st2)[fst (liveItems (minStorage st2) ! j) := Empty])))"
proof (intro conjI impI)
  assume a: "1 \<le> k \<and> stripMode st1 \<and> length (minStorage st1) = k \<and>
          slot_id (last (minStorage st1)) \<noteq> Some (fst template)"
  then have ne: "minStorage st1 \<noteq> []" by auto
  from a have gt: "js_gt (length (minStorage st1) + 1) (itemCapacity lay)"
    by (simp add: cap)
  have "minimize lay template st1 =
     Inr (st1\<lparr>minStorage := minStorage st1 @ [Entry (fst template) (snd template)],
                  count := length (minStorage st1),
                  elementWidth := Some (itemOuterWidth lay),
                  numItems := itemCapacity lay,
                  zone := map (\<lambda>j. Span j (title_of (minStorage st1 ! j)))
                            [(case itemCapacity lay of Num k \<Rightarrow> k | _ \<Rightarrow> 0)..<length (minStorage st1)] @
                          [Btn Default, Lst Default
                             (liveItems (minStorage st1 @ [Entry (fst template) (snd template)]))],
                  dropdown := True,
                  hidden := insert (fst template) (hidden st1)\<rparr>)"
    using a ne gt by (simp add: minimize_strip)
  then show "\<exists>st'. minimize lay template st1 = Inr st' \<and> dropdownMode st' \<and> numItems st' = Num k \<and>
                 minStorage st' = minStorage st1 @ [Entry (fst template) (snd template)]"
    using a cap by (simp add: dropdownMode_def)
next
  assume b: "dropdownMode st2 \<and> numItems st2 = Num k \<and> j < length (liveItems (minStorage st2)) \<and>
          length (liveItems (minStorage st2)) - 1 \<le> k"
  then have "js_le (length (liveItems (minStorage st2)) - 1) (numItems st2)" by simp
  with b maximize_dropdown_to_strip [of st2 j]
  show "\<exists>st'. maximize (Item 1 j) st2 = Inr st' \<and> stripMode st' \<and>
                 minStorage st' = filter (\<lambda>x. x \<noteq> Empty)
                    ((minStorage st2)[fst (liveItems (minStorage st2) ! j) := Empty])"
    by blast
qed

text \<open>
  The example of the specification: a zone of 300px and items of 100px give capacity
  3; minimizing a fourth pane switches to the dropdown, and restoring \<open>b\<close> from it
  switches back to the strip with the ids 0, 1, 2.
\<close>

theorem mode_boundary_witness:
  "itemCapacity \<lparr>areaClientWidth = 300, itemOuterWidth = 100\<rparr> = Num 3 \<and>
   stripMode stripOfThree \<and>
   (\<exists>st'. minimize \<lparr>areaClientWidth = 300, itemOuterWidth = 100\<rparr> (''d'', ''D'') stripOfThree = Inr st' \<and>
      dropdownMode st' \<and>
      zone st' = [Btn Default, Lst Default [(0, ''A''), (1, ''B''), (2, ''C''), (3, ''D'')]] \<and>
      (\<exists>st''. maximize (Item 1 1) st' = Inr st'' \<and> stripMode st'' \<and>
         minStorage st'' = [Entry ''a'' ''A'', Entry ''c'' ''C'', Entry ''d'' ''D''] \<and>
         zone st'' = [Span 0 ''A'', Span 1 ''C'', Span 2 ''D'']))"
proof -
  let ?lay = "\<lparr>areaClientWidth = 300, itemOuterWidth = 100\<rparr>"
  note mb = mode_boundary [OF cap300]
  have "1 \<le> (3::nat) \<and> stripMode stripOfThree \<and> length (minStorage stripOfThree) = 3 \<and>
      slot_id (last (minStorage stripOfThree)) \<noteq> Some (fst (''d'', ''D''))"
    by (simp add: stripOfThree_strip) (simp add: stripOfThree_def)
  with mb [of stripOfThree "(''d'', ''D'')"] obtain st' where
    1: "minimize ?lay (''d'', ''D'') stripOfThree = Inr st'" and 2: "dropdownMode st'"
    and 3: "numItems st' = Num 3"
    and 4: "minStorage st' = minStorage stripOfThree @ [Entry ''d'' ''D'']"
    by auto
  from 4 have ms: "minStorage st' = [Entry ''a'' ''A'', Entry ''b'' ''B'', Entry ''c'' ''C'', Entry ''d'' ''D'']"
    by (simp add: stripOfThree_def)
  from 2 ms have z: "zone st' = [Btn Default, Lst Default [(0, ''A''), (1, ''B''), (2, ''C''), (3, ''D'')]]"
    by (simp add: dropdownMode_def live4)
  have "dropdownMode st' \<and> numItems st' = Num 3 \<and> 1 < length (liveItems (minStorage st')) \<and>
      length (liveItems (minStorage st')) - 1 \<le> 3"
    using 2 3 by (simp add: ms live4)
  with mb [of _ _ st' 1] obtain st'' where
    5: "maximize (Item 1 1) st' = Inr st''" and 6: "stripMode st''"
    and 7: "minStorage st'' = filter (\<lambda>x. x \<noteq> Empty)
          ((minStorage st')[fst (liveItems (minStorage st') ! 1) := Empty])"
    by blast
  from 7 have ms'': "minStorage st'' = [Entry ''a'' ''A'', Entry ''c'' ''C'', Entry ''d'' ''D'']"
    by (simp add: ms live4)
  from 6 ms'' have z'': "zone st'' = [Span 0 ''A'', Span 1 ''C'', Span 2 ''D'']"
    by (simp add: stripMode_def horizontalReps_def upt3)
  from cap300 stripOfThree_strip 1 2 z 5 6 ms'' z'' show ?thesis by blast
qed

text \<open>
  Claim C8 as stated fails in two ways.

  For capacity 0: in a zone too narrow for one item, the first pane minimized is still
  shown in the strip. No item is there to be measured, so \<^verbatim>\<open>numItems\<close> is \<^verbatim>\<open>undefined\<close>
  and the test \<^verbatim>\<open>minStorage.length > numItems\<close> is false.

  In a dropdown that a window resize has made: with three panes in the strip and the zone
  made 150px wide (capacity 1), the resize handler leaves the representation of \<open>c\<close> in
  front of the button. Restoring \<open>a\<close> and then \<open>b\<close> from the list brings the registry
  down to one entry and switches to the strip, where the zone then holds two
  representations, with the ids 0 and 1, for the one entry \<open>c\<close>.
\<close>

theorem mode_boundary_counterexample:
  "itemCapacity \<lparr>areaClientWidth = 50, itemOuterWidth = 100\<rparr> = Num 0 \<and>
   stripMode initialState \<and> length (minStorage initialState) = 0 \<and>
   minimize \<lparr>areaClientWidth = 50, itemOuterWidth = 100\<rparr> (''a'', ''A'') initialState =
     Inr \<lparr>minStorage = [Entry ''a'' ''A''], count = 0, dropdown = False, numItems = Undefined,
          elementWidth = None, zone = [Span 0 ''A''], hidden = {''a''}\<rparr> \<and>
   itemCapacity \<lparr>areaClientWidth = 150, itemOuterWidth = 100\<rparr> = Num 1 \<and>
   updateMinimizedItemsOnWindowChange \<lparr>areaClientWidth = 150, itemOuterWidth = 100\<rparr> stripOfThree =
     Inr \<lparr>minStorage = [Entry ''a'' ''A'', Entry ''b'' ''B'', Entry ''c'' ''C''], count = 2,
          dropdown = True, numItems = Num 1, elementWidth = Some 100,
          zone = [Span 2 ''C'', Btn Default, Lst Default [(0, ''A''), (1, ''B''), (2, ''C'')]],
          hidden = {''a'', ''b'', ''c''}\<rparr> \<and>
   maximize (Item 2 0)
     \<lparr>minStorage = [Entry ''a'' ''A'', Entry ''b'' ''B'', Entry ''c'' ''C''], count = 2,
      dropdown = True, numItems = Num 1, elementWidth = Some 100,
      zone = [Span 2 ''C'', Btn Default, Lst Default [(0, ''A''), (1, ''B''), (2, ''C'')]],
      hidden = {''a'', ''b'', ''c''}\<rparr> =
     Inr \<lparr>minStorage = [Empty, Entry ''b'' ''B'', Entry ''c'' ''C''], count = 2,
          dropdown = True, numItems = Num 1, elementWidth = Some 100,
          zone = [Span 2 ''C'', Btn Default, Lst Default [(1, ''B''), (2, ''C'')]],
          hidden = {''b'', ''c''}\<rparr> \<and>
   maximize (Item 2 0)
     \<lparr>minStorage = [Empty, Entry ''b'' ''B'', Entry ''c'' ''C''], count = 2,
      dropdown = True, numItems = Num 1, elementWidth = Some 100,
      zone = [Span 2 ''C'', Btn Default, Lst Default [(1, ''B''), (2, ''C'')]],
      hidden = {''b'', ''c''}\<rparr> =
     Inr \<lparr>minStorage = [Entry ''c'' ''C''], count = 2, dropdown = False, numItems = Num 1,
          elementWidth = Some 100, zone = [Span 0 ''C'', Span 1 ''C''], hidden = {''c''}\<rparr>"
proof -
  have zero: "itemCapacity \<lparr>areaClientWidth = 50, itemOuterWidth = 100\<rparr> = Num 0 \<and>
   stripMode initialState \<and> length (minStorage initialState) = 0 \<and>
   minimize \<lparr>areaClientWidth = 50, itemOuterWidth = 100\<rparr> (''a'', ''A'') initialState =
     Inr \<lparr>minStorage = [Entry ''a'' ''A''], count = 0, dropdown = False, numItems = Undefined,
          elementWidth = None, zone = [Span 0 ''A''], hidden = {''a''}\<rparr>"
    by (simp add: itemCapacity_def stripMode_def initialState_def horizontalReps_def minimize_def
      storeMinimizedElement_def deleteDuplicatedItemsMinStorage_def minimizeUI_def
      getItemCountToFitElementByWidth_def firstElementChild_def Let_def)
  have shrink: "updateMinimizedItemsOnWindowChange
       \<lparr>areaClientWidth = 150, itemOuterWidth = 100\<rparr> stripOfThree =
     Inr \<lparr>minStorage = [Entry ''a'' ''A'', Entry ''b'' ''B'', Entry ''c'' ''C''], count = 2,
          dropdown = True, numItems = Num 1, elementWidth = Some 100,
          zone = [Span 2 ''C'', Btn Default, Lst Default [(0, ''A''), (1, ''B''), (2, ''C'')]],
          hidden = {''a'', ''b'', ''c''}\<rparr>"
    by (simp add: cap150 update_strip [OF stripOfThree_strip])
       (simp add: stripOfThree_def live3 upt_rec)
  have a: "maximize (Item 2 0)
     \<lparr>minStorage = [Entry ''a'' ''A'', Entry ''b'' ''B'', Entry ''c'' ''C''], count = 2,
      dropdown = True, numItems = Num 1, elementWidth = Some 100,
      zone = [Span 2 ''C'', Btn Default, Lst Default [(0, ''A''), (1, ''B''), (2, ''C'')]],
      hidden = {''a'', ''b'', ''c''}\<rparr> =
     Inr \<lparr>minStorage = [Empty, Entry ''b'' ''B'', Entry ''c'' ''C''], count = 2,
          dropdown = True, numItems = Num 1, elementWidth = Some 100,
          zone = [Span 2 ''C'', Btn Default, Lst Default [(1, ''B''), (2, ''C'')]],
          hidden = {''b'', ''c''}\<rparr>"
    by (simp add: maximize_def Let_def removeAt_def insert_Diff_if)
  have b: "maximize (Item 2 0)
     \<lparr>minStorage = [Empty, Entry ''b'' ''B'', Entry ''c'' ''C''], count = 2,
      dropdown = True, numItems = Num 1, elementWidth = Some 100,
      zone = [Span 2 ''C'', Btn Default, Lst Default [(1, ''B''), (2, ''C'')]],
      hidden = {''b'', ''c''}\<rparr> =
     Inr \<lparr>minStorage = [Entry ''c'' ''C''], count = 2, dropdown = False, numItems = Num 1,
          elementWidth = Some 100, zone = [Span 0 ''C'', Span 1 ''C''], hidden = {''c''}\<rparr>"
    by (simp add: maximize_def Let_def removeAt_def insert_Diff_if
        fromDropdownToHorizontalMinimized_def compact_all horizontalReps_def)
  from zero cap150 shrink a b show ?thesis by (simp only: simp_thms)
qed

subsection \<open>The capacity check on window resize\<close>

text \<open>
  Claim C9, amended. Let the capacity of the zone be \<open>k\<close>. Both paths use the same test
  \<^verbatim>\<open>minStorage.length > numItems\<close>.
  \<^item> In every state with \<^verbatim>\<open>dropdown\<close> \<^verbatim>\<open>undefined\<close>, the resize handler switches to the
    dropdown only when the registry is longer than \<open>k\<close>.
  \<^item> In strip mode with at least one entry, where the registry has no empty slot and the
    zone holds exactly one representation per entry, with the ids \<open>0, \<dots>, n - 1\<close> in
    the order of the registry: the resize handler succeeds and switches to the dropdown
    exactly when the registry is longer than \<open>k\<close>, and the minimize handler switches
    exactly when the registry, with the new entry pushed, is longer than \<open>k\<close>. The
    \<^verbatim>\<open>numItems + 1\<close> of the resize path is the number of strip representations it
    deletes; with \<open>k + 1\<close> entries that is all of them, and the result is dropdown
    mode. With at most \<open>k\<close> entries the strip stays.
\<close>

theorem resize_path_capacity_check:
  assumes cap: "itemCapacity lay = Num k"
  shows "(\<not> dropdown s \<and> updateMinimizedItemsOnWindowChange lay s = Inr s' \<and> dropdown s' \<longrightarrow>
            k < length (minStorage s)) \<and>
         (stripMode st \<and> minStorage st \<noteq> [] \<longrightarrow>
            (\<exists>st'. updateMinimizedItemsOnWindowChange lay st = Inr st' \<and>
               (dropdown st' \<longleftrightarrow> length (minStorage st) > k) \<and>
               minStorage st' = minStorage st \<and>
               (length (minStorage st) = k + 1 \<longrightarrow> dropdownMode st') \<and>
               (length (minStorage st) \<le> k \<longrightarrow> stripMode st')) \<and>
            (slot_id (last (minStorage st)) \<noteq> Some (fst template) \<longrightarrow>
             (\<exists>st'. minimize lay template st = Inr st' \<and>
                length (minStorage st') = length (minStorage st) + 1 \<and>
                (dropdown st' \<longleftrightarrow> length (minStorage st') > k))))"
proof (intro conjI impI)
  assume a: "\<not> dropdown s \<and> updateMinimizedItemsOnWindowChange lay s = Inr s' \<and> dropdown s'"
  then have dd: "\<not> dropdown s" and u: "updateMinimizedItemsOnWindowChange lay s = Inr s'"
    and d': "dropdown s'"
    by simp_all
  show "k < length (minStorage s)"
  proof (cases "firstElementChild (zone s)")
    case None
    with dd u d' show ?thesis
      by (auto simp: updateMinimizedItemsOnWindowChange_def measure_none Let_def)
  next
    case (Some c)
    with dd u d' show ?thesis
      by (auto simp: updateMinimizedItemsOnWindowChange_def measure_item cap Let_def
          split: if_splits sum.splits)
  qed
next
  assume b: "stripMode st \<and> minStorage st \<noteq> []"
  then have strip: "stripMode st" and ne: "minStorage st \<noteq> []"
    by simp_all
  from strip have dd: "\<not> dropdown st" and z: "zone st = horizontalReps (minStorage st)"
    and nE: "Empty \<notin> set (minStorage st)"
    by (simp_all add: stripMode_def)
  show "\<exists>st'. updateMinimizedItemsOnWindowChange lay st = Inr st' \<and>
            (dropdown st' \<longleftrightarrow> length (minStorage st) > k) \<and>
            minStorage st' = minStorage st \<and>
            (length (minStorage st) = k + 1 \<longrightarrow> dropdownMode st') \<and>
            (length (minStorage st) \<le> k \<longrightarrow> stripMode st')"
  proof (cases "length (minStorage st) > k")
    case True
    then show ?thesis
      using ne cap dd by (simp add: update_strip [OF strip] dropdownMode_def)
  next
    case False
    then show ?thesis
      using ne cap dd z nE by (simp add: update_strip [OF strip] stripMode_def)
  qed
next
  assume b: "stripMode st \<and> minStorage st \<noteq> []"
    and nodup: "slot_id (last (minStorage st)) \<noteq> Some (fst template)"
  from b have strip: "stripMode st" and ne: "minStorage st \<noteq> []"
    by simp_all
  from strip have dd: "\<not> dropdown st" by (simp add: stripMode_def)
  show "\<exists>st'. minimize lay template st = Inr st' \<and>
             length (minStorage st') = length (minStorage st) + 1 \<and>
             (dropdown st' \<longleftrightarrow> length (minStorage st') > k)"
    using cap dd by (simp add: minimize_strip [OF strip ne nodup])
qed

text \<open>
  Three entries in the strip and a zone that now fits two: the resize handler and the
  minimize handler both switch to the dropdown.
\<close>

theorem resize_path_capacity_check_witness:
  "stripMode stripOfThree \<and> minStorage stripOfThree \<noteq> [] \<and> \<not> dropdown stripOfThree \<and>
   itemCapacity \<lparr>areaClientWidth = 250, itemOuterWidth = 100\<rparr> = Num 2 \<and>
   slot_id (last (minStorage stripOfThree)) \<noteq> Some (fst (''d'', ''D'')) \<and>
   (\<exists>st'. updateMinimizedItemsOnWindowChange \<lparr>areaClientWidth = 250, itemOuterWidth = 100\<rparr>
            stripOfThree = Inr st' \<and> dropdown st' \<and>
          zone st' = [Btn Default, Lst Default [(0, ''A''), (1, ''B''), (2, ''C'')]] \<and>
          2 < length (minStorage stripOfThree)) \<and>
   (\<exists>st'. minimize \<lparr>areaClientWidth = 250, itemOuterWidth = 100\<rparr> (''d'', ''D'')
            stripOfThree = Inr st' \<and> dropdown st')"
proof -
  let ?lay = "\<lparr>areaClientWidth = 250, itemOuterWidth = 100\<rparr>"
  have ne: "minStorage stripOfThree \<noteq> []" and len: "length (minStorage stripOfThree) = 3"
    and nodup: "slot_id (last (minStorage stripOfThree)) \<noteq> Some (fst (''d'', ''D''))"
    and ms: "minStorage stripOfThree = [Entry ''a'' ''A'', Entry ''b'' ''B'', Entry ''c'' ''C'']"
    and dd: "\<not> dropdown stripOfThree"
    by (simp_all add: stripOfThree_def)
  note r = resize_path_capacity_check [OF cap250, THEN conjunct2, of stripOfThree "(''d'', ''D'')"]
  from r stripOfThree_strip ne len obtain st' where
    1: "updateMinimizedItemsOnWindowChange ?lay stripOfThree = Inr st'" and 2: "dropdown st'"
    and 3: "dropdownMode st'" and 4: "minStorage st' = minStorage stripOfThree"
    by auto
  from 3 4 have z: "zone st' = [Btn Default, Lst Default [(0, ''A''), (1, ''B''), (2, ''C'')]]"
    by (simp add: dropdownMode_def ms live3)
  from resize_path_capacity_check [OF cap250, THEN conjunct1, of stripOfThree st'] dd 1 2
  have only: "2 < length (minStorage stripOfThree)"
    by blast
  from r stripOfThree_strip ne nodup len obtain st'' where
    5: "minimize ?lay (''d'', ''D'') stripOfThree = Inr st''" and 6: "dropdown st''"
    by auto
  from stripOfThree_strip ne dd cap250 nodup 1 2 z only 5 6 show ?thesis by blast
qed

text \<open>
  Claim C9 as stated fails: with capacity 2 and three entries the registry is not longer
  than \<open>2 + 1\<close>, and the resize handler switches to the dropdown all the same.
\<close>

theorem resize_path_capacity_check_counterexample:
  "itemCapacity \<lparr>areaClientWidth = 250, itemOuterWidth = 100\<rparr> = Num 2 \<and>
   \<not> dropdown stripOfThree \<and>
   length (minStorage stripOfThree) = 3 \<and>
   \<not> (length (minStorage stripOfThree) > 2 + 1) \<and>
   updateMinimizedItemsOnWindowChange \<lparr>areaClientWidth = 250, itemOuterWidth = 100\<rparr> stripOfThree =
     Inr \<lparr>minStorage = [Entry ''a'' ''A'', Entry ''b'' ''B'', Entry ''c'' ''C''], count = 2,
          dropdown = True, numItems = Num 2, elementWidth = Some 100,
          zone = [Btn Default, Lst Default [(0, ''A''), (1, ''B''), (2, ''C'')]],
          hidden = {''a'', ''b'', ''c''}\<rparr>"
  by (simp add: cap250 update_strip [OF stripOfThree_strip])
     (simp add: stripOfThree_def live3 upt_rec)

text \<open>
  The second part of the amended statement needs its condition on the zone. In the strip
  mode state that two window resizes leave (the list in front of the representations,
  see above), a zone made 150px wide again fits one item and the registry holds three,
  but the handler does not switch: the first element with the id \<open>0\<close> is an item of the
  stale list, not a child of the zone, and \<^verbatim>\<open>removeChild\<close> throws.
\<close>

lemma resize_handler_throws_on_stale_list:
  "updateMinimizedItemsOnWindowChange \<lparr>areaClientWidth = 150, itemOuterWidth = 100\<rparr>
     \<lparr>minStorage = [Entry ''a'' ''A'', Entry ''b'' ''B'', Entry ''c'' ''C''], count = 2,
      dropdown = False, numItems = Num 3, elementWidth = Some 100,
      zone = [Lst Default [(0, ''A''), (1, ''B''), (2, ''C'')],
              Span 0 ''A'', Span 1 ''B'', Span 2 ''C''],
      hidden = {''a'', ''b'', ''c''}\<rparr> = Inl NotFoundError"
  by (simp add: updateMinimizedItemsOnWindowChange_def getItemCountToFitElementByWidth_def
      firstElementChild_def horizontalRepToDropdownList_def Let_def)
     (subst deleteMinimizedItems.simps, simp)

end
